theory Spec2Isabelle
  imports Main "HOL-Library.Sublist"
begin

section \<open>The leveled logger of trevatk/log\<close>

text \<open>
  The repository holds two revisions of one file: \<^verbatim>\<open>log.go\<close>, which renders
  every record as a JSON object, and an earlier revision (\<^verbatim>\<open>unnamed/part_000\<close>)
  which renders a colourised text line. Both are embedded here. Constants of the
  text revision carry the suffix \<open>_text\<close> where the two revisions differ; the level
  functions, which are the same in both, are embedded once.

  Go strings are byte sequences: \<^typ>\<open>string\<close> is a list of 8-bit characters.
\<close>

subsection \<open>What the standard library does, where the code depends on it\<close>

text \<open>
  Two library functions are modelled on the fragment of their inputs that the
  properties below need, and left as parameters elsewhere:
  \<^item> \<open>unicode_lower\<close> is \<^verbatim>\<open>strings.ToLower\<close> on a string holding a byte
    \<open>\<ge> 0x80\<close> (its rune-by-rune path through the Unicode tables);
  \<^item> \<open>sprintf_other\<close> is \<^verbatim>\<open>fmt.Sprintf\<close> on a format or an operand outside
    the fragment interpreted by \<open>sprintf_frag\<close> below.
\<close>

text \<open>
  The values of type \<^verbatim>\<open>any\<close> that the model covers as arguments of an emission
  method: strings, ints, booleans, the nil interface, and a channel of ints (a value
  that \<^verbatim>\<open>encoding/json\<close> cannot encode).
\<close>

datatype goval = VStr string | VInt int | VBool bool | VNil | VChan

record stdlib =
  unicode_lower :: "string \<Rightarrow> string"
  sprintf_other :: "string \<Rightarrow> goval list \<Rightarrow> string"

definition is_ascii :: "char \<Rightarrow> bool" where
  "is_ascii c = ((of_char c :: nat) < 128)"

definition is_upper :: "char \<Rightarrow> bool" where
  "is_upper c = (65 \<le> (of_char c :: nat) \<and> (of_char c :: nat) \<le> 90)"

definition lower_byte :: "char \<Rightarrow> char" where
  \<comment> \<open>\<^verbatim>\<open>if 'A' <= c && c <= 'Z' { c += 'a' - 'A' }\<close>\<close>
  "lower_byte c = (if is_upper c then char_of ((of_char c :: nat) + 32) else c)"

definition ToLower :: "stdlib \<Rightarrow> string \<Rightarrow> string" where
  \<comment> \<open>\<^verbatim>\<open>strings.ToLower\<close>: a string of ASCII bytes is lowered byte by byte\<close>
  "ToLower lib s = (if list_all is_ascii s then map lower_byte s else unicode_lower lib s)"

subsection \<open>Levels\<close>

text \<open>\<^verbatim>\<open>type Level int\<close> with the constants \<^verbatim>\<open>DEBUG Level = iota\<close> and on.\<close>

type_synonym Level = int

definition DEBUG :: Level where "DEBUG = 0"
definition INFO :: Level where "INFO = 1"
definition WARN :: Level where "WARN = 2"
definition ERROR :: Level where "ERROR = 3"
definition FATAL :: Level where "FATAL = 4"

lemmas level_defs = DEBUG_def INFO_def WARN_def ERROR_def FATAL_def

type_synonym color = string

definition esc :: char where "esc = char_of (27 :: nat)"

definition colorReset :: color where "colorReset = esc # ''[0m''"
definition colorRed :: color where "colorRed = esc # ''[31m''"
definition colorGreen :: color where "colorGreen = esc # ''[32m''"
definition colorYellow :: color where "colorYellow = esc # ''[33m''"
definition colorBlue :: color where "colorBlue = esc # ''[34m''"
definition colorPurple :: color where "colorPurple = esc # ''[35m''"
definition colorCyan :: color where "colorCyan = esc # ''[36m''"
definition colorWhite :: color where "colorWhite = esc # ''[37m''"

lemmas color_defs = colorReset_def colorRed_def colorGreen_def colorYellow_def
  colorBlue_def colorPurple_def colorCyan_def colorWhite_def

definition level_string :: "Level \<Rightarrow> string" where
  \<comment> \<open>\<^verbatim>\<open>func (lvl Level) string() string\<close>\<close>
  "level_string lvl =
     (if lvl = INFO then ''INFO''
      else if lvl = WARN then ''WARN''
      else if lvl = ERROR then ''ERROR''
      else if lvl = FATAL then ''FATAL''
      else ''DEBUG'')"

definition levelFromString :: "stdlib \<Rightarrow> string \<Rightarrow> Level" where
  "levelFromString lib lvl =
     (let s = ToLower lib lvl in
      if s = ''info'' then INFO
      else if s = ''warn'' then WARN
      else if s = ''error'' then ERROR
      else if s = ''fatal'' then FATAL
      else DEBUG)"

definition colorFromLevel :: "Level \<Rightarrow> color" where
  "colorFromLevel level =
     (if level = DEBUG then colorCyan
      else if level = INFO then colorGreen
      else if level = WARN then colorYellow
      else if level = ERROR then colorRed
      else if level = FATAL then colorPurple
      else colorReset)"

subsection \<open>The logger and its options\<close>

text \<open>
  An \<^verbatim>\<open>io.Writer\<close> is known to the logger by its identity only (the text revision
  compares it with \<^verbatim>\<open>os.Stdout\<close> and \<^verbatim>\<open>os.Stdin\<close>); a nil interface value is
  \<open>None\<close>. The mutex is not a field of the model: taking and releasing it are events
  of an emission (below).
\<close>

datatype writer = Stdout | Stdin | Sink nat

record Logger_text =
  w :: "writer option"
  minLevel :: Level
  name :: string

record Logger = Logger_text +
  includeCaller :: bool
  stacktrace :: bool

text \<open>
  \<^verbatim>\<open>type LoggerOption func(*Logger)\<close>. The fields of \<^verbatim>\<open>Logger\<close> are unexported,
  so the closures that can change one are those the package's five constructors
  build; an option is represented by the constructor call that made it, and
  \<open>apply_option\<close> is the closure's body. The text revision has the first three only.
\<close>

datatype LoggerOption =
    WithWriter "writer option"
  | WithName string
  | WithLevel string
  | WithCaller bool
  | WithStacktrace bool

fun apply_option :: "stdlib \<Rightarrow> LoggerOption \<Rightarrow> Logger \<Rightarrow> Logger" where
  "apply_option lib (WithWriter x) l = l\<lparr>w := x\<rparr>"
| "apply_option lib (WithName n) l = l\<lparr>name := n\<rparr>"
| "apply_option lib (WithLevel level) l = l\<lparr>minLevel := levelFromString lib level\<rparr>"
| "apply_option lib (WithCaller b) l = l\<lparr>includeCaller := b\<rparr>"
| "apply_option lib (WithStacktrace b) l = l\<lparr>stacktrace := b\<rparr>"

definition zero_Logger :: Logger where
  \<comment> \<open>\<^verbatim>\<open>&Logger{mu: sync.Mutex{}}\<close>: every other field has its zero value\<close>
  "zero_Logger = \<lparr>w = None, minLevel = 0, name = [], includeCaller = False, stacktrace = False\<rparr>"

fun run_options :: "stdlib \<Rightarrow> LoggerOption list \<Rightarrow> Logger \<Rightarrow> Logger" where
  \<comment> \<open>\<^verbatim>\<open>for _, opt := range opts { opt(l) }\<close>\<close>
  "run_options lib [] l = l"
| "run_options lib (opt # opts) l = run_options lib opts (apply_option lib opt l)"

definition New :: "stdlib \<Rightarrow> LoggerOption list \<Rightarrow> Logger" where
  "New lib opts = run_options lib opts zero_Logger"

subsection \<open>Formatting with \<^verbatim>\<open>fmt.Sprintf\<close>\<close>

text \<open>
  The fragment interpreted here: literal bytes, \<^verbatim>\<open>%%\<close>, and the verbs
  \<^verbatim>\<open>%s\<close>, \<^verbatim>\<open>%d\<close>, \<^verbatim>\<open>%v\<close> without flags, width or precision, on
  operands that are strings, ints, booleans or nil; with the library's notation for
  a verb that does not fit its operand, for a missing operand, for a format ending in
  \<^verbatim>\<open>%\<close>, and for operands left over. \<open>None\<close> says that the format or an operand
  is outside this fragment.
\<close>

fun dec_nat :: "nat \<Rightarrow> string" where
  "dec_nat n =
     (if n < 10 then [char_of (48 + n)] else dec_nat (n div 10) @ [char_of (48 + n mod 10)])"

declare dec_nat.simps [simp del]

definition dec_int :: "int \<Rightarrow> string" where
  "dec_int i = (if i < 0 then CHR ''-'' # dec_nat (nat (- i)) else dec_nat (nat i))"

fun type_name :: "goval \<Rightarrow> string" where
  "type_name (VStr s) = ''string''"
| "type_name (VInt i) = ''int''"
| "type_name (VBool b) = ''bool''"
| "type_name VNil = ''<nil>''"
| "type_name VChan = ''chan int''"

fun print_v :: "goval \<Rightarrow> string option" where
  \<comment> \<open>the operand under \<^verbatim>\<open>%v\<close>\<close>
  "print_v (VStr s) = Some s"
| "print_v (VInt i) = Some (dec_int i)"
| "print_v (VBool b) = Some (if b then ''true'' else ''false'')"
| "print_v VNil = Some ''<nil>''"
| "print_v VChan = None"

fun typed_value :: "goval \<Rightarrow> string option" where
  \<comment> \<open>\<^verbatim>\<open>type=value\<close>, and \<^verbatim>\<open><nil>\<close> alone for the nil interface\<close>
  "typed_value VNil = Some ''<nil>''"
| "typed_value a = map_option (\<lambda>v. type_name a @ ''='' @ v) (print_v a)"

definition badVerb :: "char \<Rightarrow> goval \<Rightarrow> string option" where
  "badVerb verb a = map_option (\<lambda>tv. ''%!'' @ [verb] @ ''('' @ tv @ '')'') (typed_value a)"

definition printArg :: "goval \<Rightarrow> char \<Rightarrow> string option" where
  "printArg a verb =
     (case a of
        VStr s \<Rightarrow> if verb = CHR ''s'' \<or> verb = CHR ''v'' then Some s else badVerb verb a
      | VInt i \<Rightarrow> if verb = CHR ''d'' \<or> verb = CHR ''v'' then Some (dec_int i) else badVerb verb a
      | VBool b \<Rightarrow> if verb = CHR ''v'' then print_v a else badVerb verb a
      | VNil \<Rightarrow> if verb = CHR ''v'' then print_v a else badVerb verb a
      | VChan \<Rightarrow> None)"

fun join :: "string \<Rightarrow> string list \<Rightarrow> string" where
  "join sep [] = []"
| "join sep [x] = x"
| "join sep (x # y # ys) = x @ sep @ join sep (y # ys)"

definition extra :: "goval list \<Rightarrow> string option" where
  \<comment> \<open>\<^verbatim>\<open>if !p.reordered && argNum < len(a)\<close>: the operands no verb consumed\<close>
  "extra args =
     (if args = [] then Some []
      else map_option (\<lambda>xs. ''%!(EXTRA '' @ join '', '' xs @ '')'') (those (map typed_value args)))"

fun sprintf_frag :: "string \<Rightarrow> goval list \<Rightarrow> string option" where
  "sprintf_frag [] args = extra args"
| "sprintf_frag (c # cs) args =
     (if c \<noteq> CHR ''%'' then map_option ((#) c) (sprintf_frag cs args)
      else case cs of
        [] \<Rightarrow> map_option ((@) ''%!(NOVERB)'') (extra args)
      | verb # rest \<Rightarrow>
          if verb = CHR ''%'' then map_option ((#) CHR ''%'') (sprintf_frag rest args)
          else if verb = CHR ''s'' \<or> verb = CHR ''d'' \<or> verb = CHR ''v'' then
            (case args of
               [] \<Rightarrow> map_option ((@) (''%!'' @ [verb] @ ''(MISSING)'')) (sprintf_frag rest [])
             | a # as \<Rightarrow>
                 (case printArg a verb of
                    None \<Rightarrow> None
                  | Some out \<Rightarrow> map_option ((@) out) (sprintf_frag rest as)))
          else None)"

definition Sprintf :: "stdlib \<Rightarrow> string \<Rightarrow> goval list \<Rightarrow> string" where
  "Sprintf lib format args =
     (case sprintf_frag format args of Some out \<Rightarrow> out | None \<Rightarrow> sprintf_other lib format args)"

subsection \<open>The environment of an emission, and what an emission does\<close>

text \<open>
  \<open>now\<close> is \<^verbatim>\<open>time.Now().Format("2006-01-02 15:04:05")\<close>, \<open>stack\<close> is
  \<^verbatim>\<open>string(debug.Stack())\<close>, and \<open>write_err k p\<close> is the error that the sink's
  \<^verbatim>\<open>Write\<close> returns to the \<open>k\<close>-th call of this emission (counted from 0), made
  with the bytes \<open>p\<close>: \<open>None\<close> for nil, otherwise the text of the error.
\<close>

record env =
  now :: string
  stack :: string
  write_err :: "nat \<Rightarrow> string \<Rightarrow> string option"

text \<open>
  An emission returns nothing; what it does is a trace of events and the way it ends.
  \<open>Write s p e\<close> is one call of \<^verbatim>\<open>Write\<close> on the sink \<open>s\<close> with the bytes \<open>p\<close>
  that returned the error \<open>e\<close>. \<^verbatim>\<open>os.Exit\<close> runs no deferred function, so a trace
  that ends in \<open>Exited\<close> has no \<open>Unlock\<close>. A call of \<^verbatim>\<open>Write\<close> on the nil
  interface panics; the deferred \<^verbatim>\<open>Unlock\<close> runs while the panic unwinds.
\<close>

datatype event = Lock | Unlock | ReadClock | Write writer string "string option"

datatype outcome = Returned | Exited int | Panicked

type_synonym result = "event list \<times> outcome"

definition newline :: string where
  "newline = [CHR 0x0A]"

fun is_write :: "event \<Rightarrow> bool" where
  "is_write (Write s p e) = True"
| "is_write ev = False"

definition writes :: "event list \<Rightarrow> event list" where
  "writes t = filter is_write t"

fun payload :: "event \<Rightarrow> string" where
  "payload (Write s p e) = p"
| "payload ev = []"

definition Fprintf :: "stdlib \<Rightarrow> env \<Rightarrow> writer \<Rightarrow> event list \<Rightarrow> string \<Rightarrow> goval list \<Rightarrow> event list" where
  \<comment> \<open>\<^verbatim>\<open>fmt.Fprintf(l.w, format, args...)\<close> with its result dropped: one \<^verbatim>\<open>Write\<close>
      of the formatted bytes, appended to the trace \<open>t\<close>. An error operand under
      \<^verbatim>\<open>%v\<close> is its text, and is passed as that string.\<close>
  "Fprintf lib env s t format args =
     (let p = Sprintf lib format args in t @ [Write s p (write_err env (length (writes t)) p)])"

definition finish :: "Level \<Rightarrow> event list \<Rightarrow> result" where
  \<comment> \<open>\<^verbatim>\<open>if level == FATAL { os.Exit(1) }\<close>, then the deferred \<^verbatim>\<open>Unlock\<close>\<close>
  "finish level t = (if level = FATAL then (t, Exited 1) else (t @ [Unlock], Returned))"

definition Write_entry :: "stdlib \<Rightarrow> env \<Rightarrow> writer \<Rightarrow> event list \<Rightarrow> string \<Rightarrow> event list" where
  \<comment> \<open>\<^verbatim>\<open>_, err := l.w.Write(p); if err != nil { fmt.Fprintf(l.w, "failed to write to out: %v", err) }\<close>\<close>
  "Write_entry lib env s t p =
     (let err = write_err env (length (writes t)) p;
          t' = t @ [Write s p err]
      in case err of
           None \<Rightarrow> t'
         | Some e \<Rightarrow> Fprintf lib env s t' ''failed to write to out: %v'' [VStr e])"

subsection \<open>The text revision\<close>

definition fmt_text :: "stdlib \<Rightarrow> env \<Rightarrow> 'a Logger_text_scheme \<Rightarrow> Level \<Rightarrow> string \<Rightarrow> goval list \<Rightarrow> string" where
  \<comment> \<open>an operand of the string type \<^verbatim>\<open>color\<close> prints under \<^verbatim>\<open>%s\<close> as its string\<close>
  "fmt_text lib env l level format args =
     (let ts = now env;
          msg = Sprintf lib format args;
          clr = (if w l = Some Stdout \<or> w l = Some Stdin then colorFromLevel level else []);
          lmsg = Sprintf lib ''%s%s [%s%s%s] %s %s''
                   [VStr clr, VStr ts, VStr (colorFromLevel level), VStr (level_string level),
                    VStr colorReset, VStr (name l), VStr msg];
          lmsg = (if level = ERROR \<or> level = FATAL
                  then lmsg @ Sprintf lib '' %sstracktrace %s%s''
                                [VStr (colorFromLevel level), VStr colorReset, VStr (stack env)]
                  else lmsg)
      in lmsg @ newline)"

definition logMsg_text :: "stdlib \<Rightarrow> env \<Rightarrow> 'a Logger_text_scheme \<Rightarrow> Level \<Rightarrow> string \<Rightarrow> goval list \<Rightarrow> result" where
  "logMsg_text lib env l level format args =
     (if minLevel l > level then ([], Returned)
      else case w l of
        None \<Rightarrow> ([Lock, ReadClock, Unlock], Panicked)
      | Some s \<Rightarrow>
          (let fmsg = fmt_text lib env l level format args
           in finish level (Write_entry lib env s [Lock, ReadClock] fmsg)))"

definition Debug_text where "Debug_text lib env l format = logMsg_text lib env l DEBUG ''%s'' [VStr format]"
definition Debugf_text where "Debugf_text lib env l format args = logMsg_text lib env l DEBUG format args"
definition Info_text where "Info_text lib env l format = logMsg_text lib env l INFO ''%s'' [VStr format]"
definition Infof_text where "Infof_text lib env l format args = logMsg_text lib env l INFO format args"
definition Warn_text where "Warn_text lib env l format = logMsg_text lib env l WARN ''%s'' [VStr format]"
definition Warnf_text where "Warnf_text lib env l format args = logMsg_text lib env l WARN format args"
definition Error_text where "Error_text lib env l format = logMsg_text lib env l ERROR ''%s'' [VStr format]"
definition Errorf_text where "Errorf_text lib env l format args = logMsg_text lib env l ERROR format args"
definition Fatal_text where "Fatal_text lib env l format = logMsg_text lib env l FATAL ''%s'' [VStr format]"
definition Fatalf_text where "Fatalf_text lib env l format args = logMsg_text lib env l FATAL format args"

lemmas methods_text_defs = Debug_text_def Debugf_text_def Info_text_def Infof_text_def
  Warn_text_def Warnf_text_def Error_text_def Errorf_text_def Fatal_text_def Fatalf_text_def

subsection \<open>Encoding a record with \<^verbatim>\<open>json.Marshal\<close>\<close>

text \<open>
  \<^verbatim>\<open>json.Marshal\<close> walks the struct by its field tags and writes the bytes of one
  object. It is modelled in two steps, the object as a tree (\<open>entry_json\<close>) and the
  bytes of a tree (\<open>render\<close>). String literals follow \<^verbatim>\<open>appendString\<close> of
  \<^verbatim>\<open>encoding/json\<close> (Go 1.22) as \<^verbatim>\<open>json.Marshal\<close> calls it, with the escaping of
  \<^verbatim>\<open><\<close>, \<^verbatim>\<open>>\<close> and \<^verbatim>\<open>&\<close> on: a byte that starts no valid UTF-8 sequence
  becomes the escape of U+FFFD, and U+2028 and U+2029 are escaped.
\<close>

record entry =
  Name :: string
  Level :: string
  Caller :: string
  Message :: string
  Fields :: "goval list"
  Stacktrace :: string
  Timestamp :: string

datatype jval =
    JString string
  | JNumber int
  | JBool bool
  | JNull
  | JArray "jval list"

type_synonym jobject = "(string \<times> jval) list"

datatype json_error = UnsupportedTypeError string

fun error_text :: "json_error \<Rightarrow> string" where
  "error_text (UnsupportedTypeError t) = ''json: unsupported type: '' @ t"

definition quote :: char where "quote = CHR 0x22"
definition backslash :: char where "backslash = CHR 0x5C"

definition hex :: "nat \<Rightarrow> char" where
  "hex n = ''0123456789abcdef'' ! (n mod 16)"

definition htmlSafe :: "char \<Rightarrow> bool" where
  \<comment> \<open>\<^verbatim>\<open>htmlSafeSet[b]\<close> for a byte below \<^verbatim>\<open>utf8.RuneSelf\<close>\<close>
  "htmlSafe b =
     (32 \<le> (of_char b :: nat) \<and> b \<noteq> quote \<and> b \<noteq> backslash
      \<and> b \<noteq> CHR ''&'' \<and> b \<noteq> CHR ''<'' \<and> b \<noteq> CHR ''>'')"

definition escape_byte :: "char \<Rightarrow> string" where
  "escape_byte b =
     (if b = backslash \<or> b = quote then [backslash, b]
      else if b = CHR 0x08 then [backslash, CHR ''b'']
      else if b = CHR 0x0C then [backslash, CHR ''f'']
      else if b = CHR 0x0A then [backslash, CHR ''n'']
      else if b = CHR 0x0D then [backslash, CHR ''r'']
      else if b = CHR 0x09 then [backslash, CHR ''t'']
      else [backslash, CHR ''u'', CHR ''0'', CHR ''0'',
            hex ((of_char b :: nat) div 16), hex ((of_char b :: nat) mod 16)])"

definition byte_in :: "nat \<Rightarrow> nat \<Rightarrow> char \<Rightarrow> bool" where
  "byte_in lo hi c = (lo \<le> (of_char c :: nat) \<and> (of_char c :: nat) \<le> hi)"

definition rune_size :: "string \<Rightarrow> nat" where
  \<comment> \<open>the size that \<^verbatim>\<open>utf8.DecodeRuneInString\<close> returns for a sequence it accepts, and
      0 where it returns \<^verbatim>\<open>(RuneError, 1)\<close>; called on a first byte \<open>\<ge> 0x80\<close>\<close>
  "rune_size bs =
     (case bs of
        [] \<Rightarrow> 0
      | b0 # r \<Rightarrow>
          (let x = (of_char b0 :: nat) in
           if 0xC2 \<le> x \<and> x \<le> 0xDF then
             (case r of
                b1 # r1 \<Rightarrow> if byte_in 0x80 0xBF b1 then 2 else 0
              | [] \<Rightarrow> 0)
           else if 0xE0 \<le> x \<and> x \<le> 0xEF then
             (case r of
                b1 # b2 # r2 \<Rightarrow>
                  if byte_in (if x = 0xE0 then 0xA0 else 0x80) (if x = 0xED then 0x9F else 0xBF) b1
                     \<and> byte_in 0x80 0xBF b2
                  then 3 else 0
              | _ \<Rightarrow> 0)
           else if 0xF0 \<le> x \<and> x \<le> 0xF4 then
             (case r of
                b1 # b2 # b3 # r3 \<Rightarrow>
                  if byte_in (if x = 0xF0 then 0x90 else 0x80) (if x = 0xF4 then 0x8F else 0xBF) b1
                     \<and> byte_in 0x80 0xBF b2 \<and> byte_in 0x80 0xBF b3
                  then 4 else 0
              | _ \<Rightarrow> 0)
           else 0))"

definition line_sep :: string where "line_sep = [CHR 0xE2, CHR 0x80, CHR 0xA8]"
definition para_sep :: string where "para_sep = [CHR 0xE2, CHR 0x80, CHR 0xA9]"

function escape_string :: "string \<Rightarrow> string" where
  "escape_string [] = []"
| "escape_string (b # bs) =
     (if is_ascii b then
        (if htmlSafe b then b # escape_string bs else escape_byte b @ escape_string bs)
      else
        (let size = rune_size (b # bs) in
         if size = 0 then [backslash] @ ''ufffd'' @ escape_string bs
         else if take 3 (b # bs) = line_sep then [backslash] @ ''u2028'' @ escape_string (drop 2 bs)
         else if take 3 (b # bs) = para_sep then [backslash] @ ''u2029'' @ escape_string (drop 2 bs)
         else take size (b # bs) @ escape_string (drop (size - 1) bs)))"
  by pat_completeness auto
termination
  by (relation "measure length") auto

declare escape_string.simps [simp del]

definition appendString :: "string \<Rightarrow> string" where
  "appendString src = [quote] @ escape_string src @ [quote]"

fun render :: "jval \<Rightarrow> string" where
  "render (JString s) = appendString s"
| "render (JNumber i) = dec_int i"
| "render (JBool b) = (if b then ''true'' else ''false'')"
| "render JNull = ''null''"
| "render (JArray js) = ''['' @ join '','' (map render js) @ '']''"

definition render_member :: "string \<times> jval \<Rightarrow> string" where
  "render_member kv = appendString (fst kv) @ '':'' @ render (snd kv)"

definition render_object :: "jobject \<Rightarrow> string" where
  "render_object kvs = ''{'' @ join '','' (map render_member kvs) @ ''}''"

fun json_of :: "goval \<Rightarrow> json_error + jval" where
  "json_of (VStr s) = Inr (JString s)"
| "json_of (VInt i) = Inr (JNumber i)"
| "json_of (VBool b) = Inr (JBool b)"
| "json_of VNil = Inr JNull"
| "json_of VChan = Inl (UnsupportedTypeError ''chan int'')"

fun fields_json :: "goval list \<Rightarrow> json_error + jval list" where
  "fields_json [] = Inr []"
| "fields_json (a # as) =
     (case json_of a of
        Inl e \<Rightarrow> Inl e
      | Inr j \<Rightarrow> (case fields_json as of Inl e \<Rightarrow> Inl e | Inr js \<Rightarrow> Inr (j # js)))"

definition omitempty :: "string \<Rightarrow> string \<Rightarrow> jobject" where
  \<comment> \<open>a string field tagged \<^verbatim>\<open>omitempty\<close>\<close>
  "omitempty key s = (if s = [] then [] else [(key, JString s)])"

definition entry_json :: "entry \<Rightarrow> json_error + jobject" where
  \<comment> \<open>the members in the order of the struct's fields, by their tags\<close>
  "entry_json en =
     (case fields_json (Fields en) of
        Inl e \<Rightarrow> Inl e
      | Inr fs \<Rightarrow>
          Inr (omitempty ''name'' (Name en)
               @ [(''level'', JString (Level en))]
               @ omitempty ''caller'' (Caller en)
               @ omitempty ''msg'' (Message en)
               @ (if Fields en = [] then [] else [(''fields'', JArray fs)])
               @ omitempty ''stacktrace'' (Stacktrace en)
               @ [(''timestamp'', JString (Timestamp en))]))"

definition Marshal :: "entry \<Rightarrow> json_error + string" where
  "Marshal en = (case entry_json en of Inl e \<Rightarrow> Inl e | Inr obj \<Rightarrow> Inr (render_object obj))"

subsection \<open>The JSON revision (\<^verbatim>\<open>log.go\<close>)\<close>

definition zero_entry :: entry where
  "zero_entry = \<lparr>Name = [], Level = [], Caller = [], Message = [], Fields = [],
                  Stacktrace = [], Timestamp = []\<rparr>"

fun fmt_args :: "stdlib \<Rightarrow> env \<Rightarrow> Logger \<Rightarrow> Level \<Rightarrow> goval list \<Rightarrow> entry \<Rightarrow> entry" where
  \<comment> \<open>\<^verbatim>\<open>for _, arg := range args { ... }\<close>\<close>
  "fmt_args lib env l level [] en = en"
| "fmt_args lib env l level (arg # args) en =
     (let en = en\<lparr>Fields := Fields en @ [arg]\<rparr>;
          en = (if level = ERROR \<or> level = FATAL then
                  (if stacktrace l then
                     en\<lparr>Stacktrace := Sprintf lib '' %sstracktrace %s%s''
                                         [VStr (colorFromLevel level), VStr colorReset, VStr (stack env)]\<rparr>
                   else en)
                else en)
      in fmt_args lib env l level args en)"

definition fmt :: "stdlib \<Rightarrow> env \<Rightarrow> Logger \<Rightarrow> Level \<Rightarrow> string \<Rightarrow> goval list \<Rightarrow> entry" where
  "fmt lib env l level format args =
     (let ts = now env;
          en = zero_entry;
          en = en\<lparr>Level := level_string level\<rparr>;
          en = en\<lparr>Message := format\<rparr>;
          en = en\<lparr>Fields := []\<rparr>;
          en = en\<lparr>Name := name l\<rparr>;
          en = en\<lparr>Timestamp := ts\<rparr>
      in fmt_args lib env l level args en)"

definition logMsg :: "stdlib \<Rightarrow> env \<Rightarrow> Logger \<Rightarrow> Level \<Rightarrow> string \<Rightarrow> goval list \<Rightarrow> result" where
  "logMsg lib env l level format args =
     (if minLevel l > level then ([], Returned)
      else case w l of
        None \<Rightarrow> ([Lock, ReadClock, Unlock], Panicked)
      | Some s \<Rightarrow>
          (let logEntry = fmt lib env l level format args;
               t = [Lock, ReadClock];
               (entrybytes, t) =
                  (case Marshal logEntry of
                     Inr bs \<Rightarrow> (bs, t)
                   | Inl err \<Rightarrow>
                       ([], Fprintf lib env s t ''failed to marshal message %v original message %s''
                              [VStr (error_text err), VStr format]));
               entrybytes = entrybytes @ newline
           in finish level (Write_entry lib env s t entrybytes)))"

definition Debug where "Debug lib env l format = logMsg lib env l DEBUG ''%s'' [VStr format]"
definition Debugf where "Debugf lib env l format args = logMsg lib env l DEBUG format args"
definition Info where "Info lib env l format = logMsg lib env l INFO ''%s'' [VStr format]"
definition Infof where "Infof lib env l format args = logMsg lib env l INFO format args"
definition Warn where "Warn lib env l format = logMsg lib env l WARN ''%s'' [VStr format]"
definition Warnf where "Warnf lib env l format args = logMsg lib env l WARN format args"
definition Error where "Error lib env l format = logMsg lib env l ERROR ''%s'' [VStr format]"
definition Errorf where "Errorf lib env l format args = logMsg lib env l ERROR format args"
definition Fatal where "Fatal lib env l format = logMsg lib env l FATAL ''%s'' [VStr format]"
definition Fatalf where "Fatalf lib env l format args = logMsg lib env l FATAL format args"

lemmas methods_defs = Debug_def Debugf_def Info_def Infof_def Warn_def Warnf_def
  Error_def Errorf_def Fatal_def Fatalf_def

subsection \<open>A call of one of the ten public methods\<close>

datatype call =
    CallDebug string | CallDebugf string "goval list"
  | CallInfo string | CallInfof string "goval list"
  | CallWarn string | CallWarnf string "goval list"
  | CallError string | CallErrorf string "goval list"
  | CallFatal string | CallFatalf string "goval list"

fun call_level :: "call \<Rightarrow> Level" where
  "call_level (CallDebug m) = DEBUG"
| "call_level (CallDebugf f a) = DEBUG"
| "call_level (CallInfo m) = INFO"
| "call_level (CallInfof f a) = INFO"
| "call_level (CallWarn m) = WARN"
| "call_level (CallWarnf f a) = WARN"
| "call_level (CallError m) = ERROR"
| "call_level (CallErrorf f a) = ERROR"
| "call_level (CallFatal m) = FATAL"
| "call_level (CallFatalf f a) = FATAL"

fun emit :: "stdlib \<Rightarrow> env \<Rightarrow> Logger \<Rightarrow> call \<Rightarrow> result" where
  "emit lib env l (CallDebug m) = Debug lib env l m"
| "emit lib env l (CallDebugf f a) = Debugf lib env l f a"
| "emit lib env l (CallInfo m) = Info lib env l m"
| "emit lib env l (CallInfof f a) = Infof lib env l f a"
| "emit lib env l (CallWarn m) = Warn lib env l m"
| "emit lib env l (CallWarnf f a) = Warnf lib env l f a"
| "emit lib env l (CallError m) = Error lib env l m"
| "emit lib env l (CallErrorf f a) = Errorf lib env l f a"
| "emit lib env l (CallFatal m) = Fatal lib env l m"
| "emit lib env l (CallFatalf f a) = Fatalf lib env l f a"

fun emit_text :: "stdlib \<Rightarrow> env \<Rightarrow> 'a Logger_text_scheme \<Rightarrow> call \<Rightarrow> result" where
  "emit_text lib env l (CallDebug m) = Debug_text lib env l m"
| "emit_text lib env l (CallDebugf f a) = Debugf_text lib env l f a"
| "emit_text lib env l (CallInfo m) = Info_text lib env l m"
| "emit_text lib env l (CallInfof f a) = Infof_text lib env l f a"
| "emit_text lib env l (CallWarn m) = Warn_text lib env l m"
| "emit_text lib env l (CallWarnf f a) = Warnf_text lib env l f a"
| "emit_text lib env l (CallError m) = Error_text lib env l m"
| "emit_text lib env l (CallErrorf f a) = Errorf_text lib env l f a"
| "emit_text lib env l (CallFatal m) = Fatal_text lib env l m"
| "emit_text lib env l (CallFatalf f a) = Fatalf_text lib env l f a"


subsection \<open>Notions that the statements below use\<close>

text \<open>
  What each method hands to \<^verbatim>\<open>logMsg\<close>: the plain methods pass the format
  \<^verbatim>\<open>"%s"\<close> and their message as the one operand.
\<close>

fun call_format :: "call \<Rightarrow> string \<times> goval list" where
  "call_format (CallDebug m) = (''%s'', [VStr m])"
| "call_format (CallDebugf f a) = (f, a)"
| "call_format (CallInfo m) = (''%s'', [VStr m])"
| "call_format (CallInfof f a) = (f, a)"
| "call_format (CallWarn m) = (''%s'', [VStr m])"
| "call_format (CallWarnf f a) = (f, a)"
| "call_format (CallError m) = (''%s'', [VStr m])"
| "call_format (CallErrorf f a) = (f, a)"
| "call_format (CallFatal m) = (''%s'', [VStr m])"
| "call_format (CallFatalf f a) = (f, a)"

fun failed :: "event \<Rightarrow> bool" where
  "failed (Write s p e) = (e \<noteq> None)"
| "failed ev = False"

definition marshal_diag :: "json_error \<Rightarrow> string \<Rightarrow> string" where
  "marshal_diag err format =
     ''failed to marshal message '' @ error_text err @ '' original message '' @ format"

definition write_diag :: "string \<Rightarrow> string" where
  "write_diag e = ''failed to write to out: '' @ e"

text \<open>
  Equality of two ASCII strings up to the case of their letters, written without
  reference to \<open>ToLower\<close>.
\<close>

definition same_letter :: "char \<Rightarrow> char \<Rightarrow> bool" where
  "same_letter a b =
     (a = b \<or> (is_upper a \<and> (of_char a :: nat) + 32 = of_char b)
            \<or> (is_upper b \<and> (of_char b :: nat) + 32 = of_char a))"

definition fold_eq :: "string \<Rightarrow> string \<Rightarrow> bool" where
  "fold_eq s t = list_all2 same_letter s t"

definition is_lower :: "char \<Rightarrow> bool" where
  "is_lower c = (97 \<le> (of_char c :: nat) \<and> (of_char c :: nat) \<le> 122)"

text \<open>The value that the last option of one kind gives, or the zero value.\<close>

definition last_or :: "'a \<Rightarrow> 'a list \<Rightarrow> 'a" where
  "last_or d xs = (if xs = [] then d else last xs)"

fun writer_of :: "LoggerOption \<Rightarrow> writer option option" where
  "writer_of (WithWriter x) = Some x"
| "writer_of opt = None"

fun name_of :: "LoggerOption \<Rightarrow> string option" where
  "name_of (WithName n) = Some n"
| "name_of opt = None"

fun level_of :: "LoggerOption \<Rightarrow> string option" where
  "level_of (WithLevel s) = Some s"
| "level_of opt = None"

fun caller_of :: "LoggerOption \<Rightarrow> bool option" where
  "caller_of (WithCaller b) = Some b"
| "caller_of opt = None"

fun stacktrace_of :: "LoggerOption \<Rightarrow> bool option" where
  "stacktrace_of (WithStacktrace b) = Some b"
| "stacktrace_of opt = None"

text \<open>
  The stack-trace text that both revisions build for a level, and the line that the
  text revision is specified to produce around a message:
  \<^verbatim>\<open><timestamp> [<colored-level><reset>] <name> <message>\<close>, then the stack trace
  for ERROR and FATAL, then a newline.
\<close>

definition trace_text :: "env \<Rightarrow> Level \<Rightarrow> string" where
  "trace_text env level = '' '' @ colorFromLevel level @ ''stracktrace '' @ colorReset @ stack env"

definition text_line :: "env \<Rightarrow> 'a Logger_text_scheme \<Rightarrow> Level \<Rightarrow> string \<Rightarrow> string" where
  "text_line env l level msg =
     (if w l = Some Stdout \<or> w l = Some Stdin then colorFromLevel level else [])
     @ now env @ '' ['' @ colorFromLevel level @ level_string level @ colorReset @ ''] ''
     @ name l @ '' '' @ msg
     @ (if level = ERROR \<or> level = FATAL then trace_text env level else [])
     @ newline"

text \<open>
  The message of a call: the string itself for a plain method, the formatted template
  for an f-suffixed one.
\<close>

fun call_message :: "stdlib \<Rightarrow> call \<Rightarrow> string" where
  "call_message lib (CallDebug m) = m"
| "call_message lib (CallDebugf f a) = Sprintf lib f a"
| "call_message lib (CallInfo m) = m"
| "call_message lib (CallInfof f a) = Sprintf lib f a"
| "call_message lib (CallWarn m) = m"
| "call_message lib (CallWarnf f a) = Sprintf lib f a"
| "call_message lib (CallError m) = m"
| "call_message lib (CallErrorf f a) = Sprintf lib f a"
| "call_message lib (CallFatal m) = m"
| "call_message lib (CallFatalf f a) = Sprintf lib f a"

text \<open>
  The JSON object of the structured rendering, from the values of its members: name,
  msg, fields and stacktrace are left out when empty.
\<close>

definition object_of :: "string \<Rightarrow> string \<Rightarrow> string \<Rightarrow> jval list \<Rightarrow> string \<Rightarrow> string \<Rightarrow> jobject" where
  "object_of nm lvl msg fs st ts =
     omitempty ''name'' nm
     @ [(''level'', JString lvl)]
     @ omitempty ''msg'' msg
     @ (if fs = [] then [] else [(''fields'', JArray fs)])
     @ omitempty ''stacktrace'' st
     @ [(''timestamp'', JString ts)]"

text \<open>
  The diagnostic write that follows the \<open>k\<close>-th write of the bytes \<open>p\<close> when that
  write returned an error.
\<close>

definition diag_after :: "env \<Rightarrow> writer \<Rightarrow> nat \<Rightarrow> string \<Rightarrow> event list" where
  "diag_after env s k p =
     (case write_err env k p of
        None \<Rightarrow> []
      | Some e \<Rightarrow> [Write s (write_diag e) (write_err env (Suc k) (write_diag e))])"

subsection \<open>Concrete inputs for the examples\<close>

text \<open>
  An instance of the library parameters, a clock reading and a stack dump, and sinks
  that accept every write or refuse every write. \<open>example_lower\<close> is what
  \<^verbatim>\<open>strings.ToLower\<close> does on a string without upper-case letters, the only
  strings it is applied to below; \<open>example_other\<close> is a placeholder that no example
  reaches.
\<close>

definition example_lower :: "string \<Rightarrow> string" where
  "example_lower s = s"

definition example_other :: "string \<Rightarrow> goval list \<Rightarrow> string" where
  "example_other format args = []"

definition example_lib :: stdlib where
  "example_lib = \<lparr>unicode_lower = example_lower, sprintf_other = example_other\<rparr>"

definition accepts :: "nat \<Rightarrow> string \<Rightarrow> string option" where
  "accepts k p = None"

definition refuses :: "nat \<Rightarrow> string \<Rightarrow> string option" where
  "refuses k p = Some ''short write''"

definition example_env :: env where
  "example_env = \<lparr>now = ''2006-01-02 15:04:05'', stack = ''goroutine 1 [running]:'',
                   write_err = accepts\<rparr>"

definition failing_env :: env where
  "failing_env = \<lparr>now = ''2006-01-02 15:04:05'', stack = ''goroutine 1 [running]:'',
                   write_err = refuses\<rparr>"

definition example_logger :: Logger where
  "example_logger = \<lparr>w = Some (Sink 0), minLevel = INFO, name = ''unit_test'',
                      includeCaller = False, stacktrace = True\<rparr>"

definition example_logger_text :: Logger_text where
  "example_logger_text = \<lparr>w = Some (Sink 0), minLevel = INFO, name = ''unit_test''\<rparr>"

definition nameless_logger :: Logger where
  "nameless_logger = \<lparr>w = Some (Sink 0), minLevel = DEBUG, name = [],
                       includeCaller = False, stacktrace = True\<rparr>"


section \<open>Properties\<close>

subsection \<open>Formatting inside the fragment\<close>

lemma Sprintf_s: "Sprintf lib ''%s'' [VStr m] = m"
  by (simp add: Sprintf_def printArg_def extra_def)

lemma Sprintf_line:
  "Sprintf lib ''%s%s [%s%s%s] %s %s'' [VStr a, VStr b, VStr c, VStr d, VStr e, VStr f, VStr g]
     = a @ b @ '' ['' @ c @ d @ e @ ''] '' @ f @ '' '' @ g"
  by (simp add: Sprintf_def printArg_def extra_def)

lemma Sprintf_stack:
  "Sprintf lib '' %sstracktrace %s%s'' [VStr a, VStr b, VStr c]
     = '' '' @ a @ ''stracktrace '' @ b @ c"
  by (simp add: Sprintf_def printArg_def extra_def)

lemma Sprintf_write_failed:
  "Sprintf lib ''failed to write to out: %v'' [VStr e] = write_diag e"
  by (simp add: Sprintf_def printArg_def extra_def write_diag_def)

lemma Sprintf_marshal_failed:
  "Sprintf lib ''failed to marshal message %v original message %s'' [VStr e, VStr f]
     = ''failed to marshal message '' @ e @ '' original message '' @ f"
  by (simp add: Sprintf_def printArg_def extra_def)

subsection \<open>The shape of an emission\<close>

lemma emit_logMsg:
  "emit lib env l c = logMsg lib env l (call_level c) (fst (call_format c)) (snd (call_format c))"
  by (cases c) (simp_all add: methods_defs)

lemma emit_text_logMsg:
  "emit_text lib env l c
     = logMsg_text lib env l (call_level c) (fst (call_format c)) (snd (call_format c))"
  by (cases c) (simp_all add: methods_text_defs)

lemma writes_append: "writes (t @ u) = writes t @ writes u"
  by (simp add: writes_def)

lemma writes_simps:
  "writes [] = []" "writes (Lock # t) = writes t" "writes (Unlock # t) = writes t"
  "writes (ReadClock # t) = writes t" "writes (Write s p e # t) = Write s p e # writes t"
  by (simp_all add: writes_def)

lemma Write_entry_eq:
  "Write_entry lib env s t p =
     t @ Write s p (write_err env (length (writes t)) p)
       # (case write_err env (length (writes t)) p of
            None \<Rightarrow> []
          | Some e \<Rightarrow> [Write s (write_diag e)
                         (write_err env (Suc (length (writes t))) (write_diag e))])"
  by (simp add: Write_entry_def Fprintf_def Let_def Sprintf_write_failed writes_append writes_simps
           split: option.splits)

lemma fst_finish: "fst (finish level t) = (if level = FATAL then t else t @ [Unlock])"
  by (simp add: finish_def)

lemma snd_finish: "snd (finish level t) = (if level = FATAL then Exited 1 else Returned)"
  by (simp add: finish_def)

lemma writes_finish: "writes (fst (finish level t)) = writes t"
  by (simp add: fst_finish writes_append writes_simps)

lemma logMsg_filtered:
  "minLevel l > level \<Longrightarrow> logMsg lib env l level format args = ([], Returned)"
  by (simp add: logMsg_def)

lemma logMsg_text_filtered:
  "minLevel l > level \<Longrightarrow> logMsg_text lib env l level format args = ([], Returned)"
  by (simp add: logMsg_text_def)

lemma logMsg_nil:
  "\<not> minLevel l > level \<Longrightarrow> w l = None \<Longrightarrow>
     logMsg lib env l level format args = ([Lock, ReadClock, Unlock], Panicked)"
  by (simp add: logMsg_def)

lemma logMsg_text_nil:
  "\<not> minLevel l > level \<Longrightarrow> w l = None \<Longrightarrow>
     logMsg_text lib env l level format args = ([Lock, ReadClock, Unlock], Panicked)"
  by (simp add: logMsg_text_def)

lemma logMsg_text_sink:
  "\<not> minLevel l > level \<Longrightarrow> w l = Some s \<Longrightarrow>
     logMsg_text lib env l level format args
       = finish level (Write_entry lib env s [Lock, ReadClock] (fmt_text lib env l level format args))"
  by (simp add: logMsg_text_def)

lemma logMsg_sink_ok:
  "\<not> minLevel l > level \<Longrightarrow> w l = Some s \<Longrightarrow>
   Marshal (fmt lib env l level format args) = Inr bs \<Longrightarrow>
     logMsg lib env l level format args
       = finish level (Write_entry lib env s [Lock, ReadClock] (bs @ newline))"
  by (simp add: logMsg_def)

lemma logMsg_sink_fail:
  "\<not> minLevel l > level \<Longrightarrow> w l = Some s \<Longrightarrow>
   Marshal (fmt lib env l level format args) = Inl err \<Longrightarrow>
     logMsg lib env l level format args
       = finish level (Write_entry lib env s
            [Lock, ReadClock,
             Write s (marshal_diag err format) (write_err env 0 (marshal_diag err format))]
            newline)"
  by (simp add: logMsg_def Fprintf_def Let_def Sprintf_marshal_failed marshal_diag_def writes_simps)

subsection \<open>Levels from strings\<close>

lemma lower_byte_eq_iff:
  assumes "is_lower x"
  shows "lower_byte c = x \<longleftrightarrow> same_letter c x"
proof (cases "is_upper c")
  case True
  have "(of_char c :: nat) + 32 < 256" using True by (simp add: is_upper_def)
  then have "char_of ((of_char c :: nat) + 32) = x \<longleftrightarrow> (of_char c :: nat) + 32 = of_char x"
    by (simp add: char_of_eq_iff take_bit_eq_mod)
  moreover have "c \<noteq> x" "\<not> is_upper x"
    using True assms by (auto simp: is_upper_def is_lower_def)
  ultimately show ?thesis using True by (simp add: lower_byte_def same_letter_def)
next
  case False
  moreover have "\<not> is_upper x" using assms by (auto simp: is_upper_def is_lower_def)
  ultimately show ?thesis by (auto simp: lower_byte_def same_letter_def)
qed

lemma map_lower_eq_iff:
  assumes "list_all is_lower t"
  shows "map lower_byte s = t \<longleftrightarrow> fold_eq s t"
  using assms unfolding fold_eq_def
proof (induction s arbitrary: t)
  case Nil
  then show ?case by auto
next
  case (Cons c s)
  then show ?case by (cases t) (auto simp: lower_byte_eq_iff)
qed

lemma lower_words:
  "list_all is_lower ''info''" "list_all is_lower ''warn''"
  "list_all is_lower ''error''" "list_all is_lower ''fatal''"
  by (simp_all add: is_lower_def)

lemma levelFromString_range: "DEBUG \<le> levelFromString lib s \<and> levelFromString lib s \<le> FATAL"
  by (simp add: levelFromString_def Let_def level_defs)

lemma levelFromString_examples:
  "levelFromString lib ''Warn'' = WARN \<and> levelFromString lib ''WARN'' = WARN
   \<and> levelFromString lib ''warn'' = WARN \<and> levelFromString lib ''bogus'' = DEBUG
   \<and> levelFromString lib ''trace'' = DEBUG \<and> levelFromString lib [] = DEBUG"
  by (simp add: levelFromString_def ToLower_def is_ascii_def lower_byte_def is_upper_def
        char_of_def bit_0 level_defs)

text \<open>
  C6. \<open>levelFromString\<close> is total and case-insensitive: it returns one of the five
  levels on every string and signals no error (its result type has none). On a string
  of ASCII bytes it returns INFO, WARN, ERROR or FATAL exactly when the string equals
  "info", "warn", "error" or "fatal" up to the case of its letters, and DEBUG on every
  other string. On a string with a byte outside ASCII the same holds with the
  library's Unicode lower-casing as the folding.
\<close>

theorem levelFromString_total_case_insensitive:
  "levelFromString lib s \<in> {DEBUG, INFO, WARN, ERROR, FATAL}
   \<and> (list_all is_ascii s \<longrightarrow>
        levelFromString lib s =
          (if fold_eq s ''info'' then INFO
           else if fold_eq s ''warn'' then WARN
           else if fold_eq s ''error'' then ERROR
           else if fold_eq s ''fatal'' then FATAL
           else DEBUG))
   \<and> (\<not> list_all is_ascii s \<longrightarrow>
        levelFromString lib s =
          (if unicode_lower lib s = ''info'' then INFO
           else if unicode_lower lib s = ''warn'' then WARN
           else if unicode_lower lib s = ''error'' then ERROR
           else if unicode_lower lib s = ''fatal'' then FATAL
           else DEBUG))"
proof -
  have words: "fold_eq s ''info'' = (map lower_byte s = ''info'')"
    "fold_eq s ''warn'' = (map lower_byte s = ''warn'')"
    "fold_eq s ''error'' = (map lower_byte s = ''error'')"
    "fold_eq s ''fatal'' = (map lower_byte s = ''fatal'')"
    by (simp_all only: map_lower_eq_iff [OF lower_words(1)] map_lower_eq_iff [OF lower_words(2)]
          map_lower_eq_iff [OF lower_words(3)] map_lower_eq_iff [OF lower_words(4)])
  have range: "levelFromString lib s \<in> {DEBUG, INFO, WARN, ERROR, FATAL}"
    by (simp add: levelFromString_def Let_def)
  have ascii: "list_all is_ascii s \<Longrightarrow> ToLower lib s = map lower_byte s"
    by (simp add: ToLower_def)
  have other: "\<not> list_all is_ascii s \<Longrightarrow> ToLower lib s = unicode_lower lib s"
    by (simp add: ToLower_def)
  show ?thesis
    using range by (simp only: words) (simp add: levelFromString_def Let_def ascii other)
qed

theorem levelFromString_total_case_insensitive_witness:
  "list_all is_ascii ''WaRn'' \<and> fold_eq ''WaRn'' ''warn''
   \<and> levelFromString example_lib ''WaRn'' = WARN
   \<and> list_all is_ascii ''bogus'' \<and> levelFromString example_lib ''bogus'' = DEBUG
   \<and> \<not> list_all is_ascii (''caf'' @ [CHR 0xC3, CHR 0xA9])
   \<and> levelFromString example_lib (''caf'' @ [CHR 0xC3, CHR 0xA9]) = DEBUG"
  using levelFromString_total_case_insensitive [of example_lib "''WaRn''"]
    levelFromString_total_case_insensitive [of example_lib "''bogus''"]
    levelFromString_total_case_insensitive [of example_lib "''caf'' @ [CHR 0xC3, CHR 0xA9]"]
  by (simp add: is_ascii_def fold_eq_def same_letter_def is_upper_def level_defs
        example_lib_def example_lower_def)

subsection \<open>Construction\<close>

lemma run_options_snoc:
  "run_options lib (opts @ [opt]) l = apply_option lib opt (run_options lib opts l)"
  by (induction opts arbitrary: l) simp_all

lemma New_snoc: "New lib (opts @ [opt]) = apply_option lib opt (New lib opts)"
  by (simp add: New_def run_options_snoc)

lemma New_Nil:
  "New lib [] = \<lparr>w = None, minLevel = DEBUG, name = [], includeCaller = False, stacktrace = False\<rparr>"
  by (simp add: New_def zero_Logger_def DEBUG_def)

lemma map_filter_snoc:
  "List.map_filter f (xs @ [x])
     = List.map_filter f xs @ (case f x of None \<Rightarrow> [] | Some y \<Rightarrow> [y])"
  by (simp add: List.map_filter_def split: option.splits)

lemma New_w: "w (New lib opts) = last_or None (List.map_filter writer_of opts)"
proof (induction opts rule: rev_induct)
  case Nil
  show ?case by (simp add: New_Nil last_or_def List.map_filter_def)
next
  case (snoc opt opts)
  then show ?case by (cases opt) (simp_all add: New_snoc map_filter_snoc last_or_def)
qed

lemma New_name: "name (New lib opts) = last_or [] (List.map_filter name_of opts)"
proof (induction opts rule: rev_induct)
  case Nil
  show ?case by (simp add: New_Nil last_or_def List.map_filter_def)
next
  case (snoc opt opts)
  then show ?case by (cases opt) (simp_all add: New_snoc map_filter_snoc last_or_def)
qed

lemma New_minLevel:
  "minLevel (New lib opts)
     = last_or DEBUG (map (levelFromString lib) (List.map_filter level_of opts))"
proof (induction opts rule: rev_induct)
  case Nil
  show ?case by (simp add: New_Nil last_or_def List.map_filter_def)
next
  case (snoc opt opts)
  then show ?case by (cases opt) (simp_all add: New_snoc map_filter_snoc last_or_def)
qed

lemma New_includeCaller:
  "includeCaller (New lib opts) = last_or False (List.map_filter caller_of opts)"
proof (induction opts rule: rev_induct)
  case Nil
  show ?case by (simp add: New_Nil last_or_def List.map_filter_def)
next
  case (snoc opt opts)
  then show ?case by (cases opt) (simp_all add: New_snoc map_filter_snoc last_or_def)
qed

lemma New_stacktrace:
  "stacktrace (New lib opts) = last_or False (List.map_filter stacktrace_of opts)"
proof (induction opts rule: rev_induct)
  case Nil
  show ?case by (simp add: New_Nil last_or_def List.map_filter_def)
next
  case (snoc opt opts)
  then show ?case by (cases opt) (simp_all add: New_snoc map_filter_snoc last_or_def)
qed

lemma New_minLevel_range:
  "DEBUG \<le> minLevel (New lib opts) \<and> minLevel (New lib opts) \<le> FATAL"
proof (induction opts rule: rev_induct)
  case Nil
  show ?case by (simp add: New_Nil) (simp add: level_defs)
next
  case (snoc opt opts)
  then show ?case using levelFromString_range by (cases opt) (simp_all add: New_snoc)
qed

text \<open>
  C8. \<open>New\<close> applies its options, in the order of the arguments, to a zero-valued
  logger: with no option the logger has no sink, the empty name, the threshold DEBUG,
  under which no call of a public method is filtered, and both flags false; an option
  appended to the list is applied to the logger that the list before it builds; and
  each field holds what the last option of its kind in the list sets, or its zero
  value when the list has none of that kind.
\<close>

theorem New_last_write_wins:
  "New lib [] = \<lparr>w = None, minLevel = DEBUG, name = [], includeCaller = False, stacktrace = False\<rparr>
   \<and> \<not> minLevel (New lib []) > call_level c
   \<and> New lib (opts @ [opt]) = apply_option lib opt (New lib opts)
   \<and> w (New lib opts) = last_or None (List.map_filter writer_of opts)
   \<and> name (New lib opts) = last_or [] (List.map_filter name_of opts)
   \<and> minLevel (New lib opts)
       = last_or DEBUG (map (levelFromString lib) (List.map_filter level_of opts))
   \<and> includeCaller (New lib opts) = last_or False (List.map_filter caller_of opts)
   \<and> stacktrace (New lib opts) = last_or False (List.map_filter stacktrace_of opts)"
proof -
  have "\<not> minLevel (New lib []) > call_level c"
    by (cases c) (simp_all add: New_Nil level_defs)
  then show ?thesis
    using New_Nil New_snoc New_w New_name New_minLevel New_includeCaller New_stacktrace by blast
qed


subsection \<open>The record that the JSON revision builds\<close>

lemma fmt_args_eq:
  "fmt_args lib env l level args en =
     en\<lparr>Fields := Fields en @ args,
        Stacktrace := (if args \<noteq> [] \<and> (level = ERROR \<or> level = FATAL) \<and> stacktrace l
                       then trace_text env level else Stacktrace en)\<rparr>"
  by (induction args arbitrary: en) (simp_all add: Let_def Sprintf_stack trace_text_def)

lemma fmt_eq:
  "fmt lib env l level format args =
     \<lparr>Name = name l, Level = level_string level, Caller = [], Message = format, Fields = args,
      Stacktrace = (if args \<noteq> [] \<and> (level = ERROR \<or> level = FATAL) \<and> stacktrace l
                    then trace_text env level else []),
      Timestamp = now env\<rparr>"
  by (simp add: fmt_def Let_def fmt_args_eq zero_entry_def)

lemma trace_text_nonempty: "trace_text env level \<noteq> []"
  by (simp add: trace_text_def)

lemma stacktrace_levels:
  "Stacktrace (fmt lib env l level format args) \<noteq> []
     \<longleftrightarrow> args \<noteq> [] \<and> (level = ERROR \<or> level = FATAL) \<and> stacktrace l"
  by (simp add: fmt_eq trace_text_nonempty)

lemma fmt_text_eq:
  "fmt_text lib env l level format args = text_line env l level (Sprintf lib format args)"
  by (simp add: fmt_text_def text_line_def Let_def Sprintf_line Sprintf_stack trace_text_def)

text \<open>
  C3. With the stacktrace flag set, an ERROR or FATAL record should carry a stack
  trace however many variadic arguments the call has. In \<^verbatim>\<open>log.go\<close> the trace is
  attached inside the loop over the arguments, so \<^verbatim>\<open>Errorf("boom")\<close>, which has
  none, builds a record without one, while \<^verbatim>\<open>Error("boom")\<close>, which passes its
  message as the one argument, builds a record with one. The text revision appends the
  trace outside any loop (\<open>fmt_text_eq\<close>, \<open>text_line\<close>).
\<close>

theorem Errorf_without_arguments_has_no_stacktrace:
  "stacktrace example_logger
   \<and> Stacktrace (fmt example_lib example_env example_logger ERROR ''boom'' []) = []
   \<and> entry_json (fmt example_lib example_env example_logger ERROR ''boom'' [])
       = Inr [(''name'', JString ''unit_test''), (''level'', JString ''ERROR''),
              (''msg'', JString ''boom''), (''timestamp'', JString ''2006-01-02 15:04:05'')]
   \<and> emit example_lib example_env example_logger (CallErrorf ''boom'' [])
       = ([Lock, ReadClock,
           Write (Sink 0)
             (render_object [(''name'', JString ''unit_test''), (''level'', JString ''ERROR''),
                             (''msg'', JString ''boom''),
                             (''timestamp'', JString ''2006-01-02 15:04:05'')] @ newline) None,
           Unlock], Returned)
   \<and> Stacktrace (fmt example_lib example_env example_logger ERROR ''%s'' [VStr ''boom''])
       = trace_text example_env ERROR"
  by (simp add: fmt_eq example_logger_def example_env_def entry_json_def omitempty_def
        level_string_def level_defs Errorf_def logMsg_def Marshal_def accepts_def
        Write_entry_def finish_def writes_def)

subsection \<open>The bytes of a record\<close>

lemma hex_not_nl: "hex n \<noteq> CHR 0x0A" "CHR 0x0A \<noteq> hex n"
proof -
  have "hex n \<in> set ''0123456789abcdef''"
    unfolding hex_def by (rule nth_mem) simp
  then show "hex n \<noteq> CHR 0x0A" "CHR 0x0A \<noteq> hex n" by auto
qed

lemma escape_byte_no_nl: "CHR 0x0A \<notin> set (escape_byte b)"
  by (auto simp: escape_byte_def backslash_def quote_def hex_not_nl)

lemma rune_size_bytes:
  "rune_size (b # bs) = k \<Longrightarrow> 0 < k \<Longrightarrow> c \<in> set (take (k - 1) bs) \<Longrightarrow> \<not> is_ascii c"
  unfolding rune_size_def Let_def
  by (auto simp: byte_in_def is_ascii_def split: if_splits list.splits)

lemma escape_string_no_nl: "CHR 0x0A \<notin> set (escape_string s)"
proof (induction s rule: escape_string.induct)
  case 1
  show ?case by (simp add: escape_string.simps)
next
  case (2 b bs)
  show ?case
  proof (cases "is_ascii b")
    case True
    then show ?thesis
      using 2(1,2) escape_byte_no_nl [of b]
      by (auto simp: escape_string.simps(2) [of b bs] htmlSafe_def)
  next
    case False
    have b: "b \<noteq> CHR 0x0A" using False by (auto simp: is_ascii_def)
    have rest: "CHR 0x0A \<notin> set (take (rune_size (b # bs) - 1) bs)" if "0 < rune_size (b # bs)"
      using rune_size_bytes [OF refl that, of "CHR 0x0A"] by (auto simp: is_ascii_def)
    show ?thesis
      using False b rest 2(3-6) [OF False refl]
      by (auto simp: escape_string.simps(2) [of b bs] Let_def backslash_def take_Cons'
               split: if_splits)
  qed
qed

lemma digit_not_nl: "char_of (48 + n mod 10 :: nat) \<noteq> CHR 0x0A"
proof -
  have "(48 + n mod 10) mod 256 = 48 + n mod 10" by simp
  moreover have "48 + n mod 10 \<noteq> (10 :: nat)" by simp
  ultimately show ?thesis
    by (simp add: char_of_eq_iff take_bit_eq_mod)
qed

lemma dec_nat_no_nl: "CHR 0x0A \<notin> set (dec_nat n)"
proof (induction n rule: dec_nat.induct)
  case (1 n)
  show ?case
  proof (cases "n < 10")
    case True
    then have "n mod 10 = n" by simp
    with True digit_not_nl [of n] show ?thesis by (auto simp: dec_nat.simps [of n])
  next
    case False
    with 1 digit_not_nl [of n] show ?thesis by (auto simp: dec_nat.simps [of n])
  qed
qed

lemma dec_int_no_nl: "CHR 0x0A \<notin> set (dec_int i)"
  by (simp add: dec_int_def dec_nat_no_nl)

lemma set_join: "set (join sep xs) \<subseteq> set sep \<union> \<Union> (set ` set xs)"
  by (induction sep xs rule: join.induct) auto

lemma appendString_no_nl: "CHR 0x0A \<notin> set (appendString s)"
  by (simp add: appendString_def quote_def escape_string_no_nl)

lemma render_no_nl: "CHR 0x0A \<notin> set (render j)"
proof (induction j)
  case (JArray js)
  have "CHR 0x0A \<notin> set (join '','' (map render js))"
    using set_join [of "'',''" "map render js"] JArray by auto
  then show ?case by simp
qed (simp_all add: appendString_no_nl dec_int_no_nl)

lemma render_object_no_nl: "CHR 0x0A \<notin> set (render_object obj)"
proof -
  have "CHR 0x0A \<notin> set (render_member kv)" for kv
    by (simp add: render_member_def appendString_no_nl render_no_nl)
  then have "CHR 0x0A \<notin> set (join '','' (map render_member obj))"
    using set_join [of "'',''" "map render_member obj"] by auto
  then show ?thesis by (simp add: render_object_def)
qed

lemma fields_json_all:
  "fields_json args = Inr fs \<longleftrightarrow> list_all2 (\<lambda>a j. json_of a = Inr j) args fs"
proof (induction args arbitrary: fs)
  case Nil
  show ?case by auto
next
  case (Cons a args)
  show ?case by (cases fs) (auto simp: Cons [symmetric] split: sum.splits)
qed

lemma fields_json_fails:
  "(\<exists>e. fields_json args = Inl e) \<longleftrightarrow> VChan \<in> set args"
proof (induction args)
  case Nil
  show ?case by simp
next
  case (Cons a args)
  then show ?case by (cases a) (auto split: sum.splits)
qed

lemma fields_json_error:
  "fields_json args = Inl e \<Longrightarrow> e = UnsupportedTypeError ''chan int''"
proof (induction args)
  case Nil
  then show ?case by simp
next
  case (Cons a args)
  then show ?case by (cases a) (auto split: sum.splits)
qed

lemma entry_json_object:
  "fields_json args = Inr fs \<Longrightarrow>
     entry_json (fmt lib env l level format args)
       = Inr (object_of (name l) (level_string level) format fs
                (Stacktrace (fmt lib env l level format args)) (now env))"
  by (cases args; cases fs)
     (auto simp: entry_json_def fmt_eq object_of_def omitempty_def [of "''caller''"]
           split: sum.splits)

lemma Marshal_object:
  "fields_json args = Inr fs \<Longrightarrow>
     Marshal (fmt lib env l level format args)
       = Inr (render_object (object_of (name l) (level_string level) format fs
                (Stacktrace (fmt lib env l level format args)) (now env)))"
  by (simp add: Marshal_def entry_json_object)

lemma Marshal_fails:
  "fields_json args = Inl e \<Longrightarrow> Marshal (fmt lib env l level format args) = Inl e"
  by (simp add: Marshal_def entry_json_def fmt_eq)

subsection \<open>The writes of an emission\<close>

lemma writes_Write_entry:
  "writes (Write_entry lib env s t p)
     = writes t @ Write s p (write_err env (length (writes t)) p)
         # diag_after env s (length (writes t)) p"
  by (simp add: Write_entry_eq writes_append writes_simps diag_after_def split: option.splits)

lemma writes_logMsg_text:
  assumes "\<not> minLevel l > level" "w l = Some s"
  shows "writes (fst (logMsg_text lib env l level format args))
           = Write s (fmt_text lib env l level format args)
                 (write_err env 0 (fmt_text lib env l level format args))
               # diag_after env s 0 (fmt_text lib env l level format args)"
  by (simp add: logMsg_text_sink [OF assms] writes_finish writes_Write_entry writes_simps)

lemma writes_logMsg_ok:
  assumes "\<not> minLevel l > level" "w l = Some s"
    "Marshal (fmt lib env l level format args) = Inr bs"
  shows "writes (fst (logMsg lib env l level format args))
           = Write s (bs @ newline) (write_err env 0 (bs @ newline))
               # diag_after env s 0 (bs @ newline)"
  by (simp add: logMsg_sink_ok [OF assms] writes_finish writes_Write_entry writes_simps)

lemma writes_logMsg_fail:
  assumes "\<not> minLevel l > level" "w l = Some s"
    "Marshal (fmt lib env l level format args) = Inl err"
  shows "writes (fst (logMsg lib env l level format args))
           = Write s (marshal_diag err format) (write_err env 0 (marshal_diag err format))
               # Write s newline (write_err env 1 newline)
               # diag_after env s 1 newline"
  by (simp add: logMsg_sink_fail [OF assms] writes_finish writes_Write_entry writes_simps)

lemma snd_logMsg:
  "\<not> minLevel l > level \<Longrightarrow> w l = Some s \<Longrightarrow>
     snd (logMsg lib env l level format args) = (if level = FATAL then Exited 1 else Returned)"
  by (cases "Marshal (fmt lib env l level format args)")
     (simp_all add: logMsg_sink_ok logMsg_sink_fail snd_finish)

lemma snd_logMsg_text:
  "\<not> minLevel l > level \<Longrightarrow> w l = Some s \<Longrightarrow>
     snd (logMsg_text lib env l level format args) = (if level = FATAL then Exited 1 else Returned)"
  by (simp add: logMsg_text_sink snd_finish)

lemma last_Write_entry: "is_write (last (Write_entry lib env s t p))"
  by (simp add: Write_entry_eq split: option.splits)

lemma Write_entry_nonempty: "Write_entry lib env s t p \<noteq> []"
  by (simp add: Write_entry_eq)

lemma fst_logMsg_fatal:
  assumes "\<not> minLevel l > FATAL" "w l = Some s"
  shows "fst (logMsg lib env l FATAL format args) \<noteq> []
         \<and> is_write (last (fst (logMsg lib env l FATAL format args)))"
  by (cases "Marshal (fmt lib env l FATAL format args)")
     (simp_all add: logMsg_sink_ok [OF assms] logMsg_sink_fail [OF assms] fst_finish
        last_Write_entry Write_entry_nonempty)

lemma fst_logMsg_text_fatal:
  assumes "\<not> minLevel l > FATAL" "w l = Some s"
  shows "fst (logMsg_text lib env l FATAL format args) \<noteq> []
         \<and> is_write (last (fst (logMsg_text lib env l FATAL format args)))"
  by (simp add: logMsg_text_sink [OF assms] fst_finish last_Write_entry Write_entry_nonempty)

lemma snd_logMsg_not_exit:
  "level \<noteq> FATAL \<Longrightarrow> snd (logMsg lib env l level format args) \<noteq> Exited code"
  by (cases "minLevel l > level"; cases "w l")
     (auto simp: logMsg_filtered logMsg_nil snd_logMsg)

lemma snd_logMsg_text_not_exit:
  "level \<noteq> FATAL \<Longrightarrow> snd (logMsg_text lib env l level format args) \<noteq> Exited code"
  by (cases "minLevel l > level"; cases "w l")
     (auto simp: logMsg_text_filtered logMsg_text_nil snd_logMsg_text)

lemma newline_nonempty: "newline \<noteq> []"
  by (simp add: newline_def)

lemma write_diag_nonempty: "write_diag e \<noteq> []"
  by (simp add: write_diag_def)

lemma marshal_diag_nonempty: "marshal_diag err f \<noteq> []"
  by (simp add: marshal_diag_def)

lemma fmt_text_nonempty: "fmt_text lib env l level format args \<noteq> []"
  by (simp add: fmt_text_def Let_def newline_def)

lemma diag_after_props:
  "length (diag_after env s k p) \<le> 1"
  "\<forall>ev\<in>set (diag_after env s k p). payload ev \<noteq> []"
  "diag_after env s k p = [] \<longleftrightarrow> write_err env k p = None"
  by (auto simp: diag_after_def write_diag_nonempty split: option.splits)

lemma one_write_iff:
  "length (Write s p (write_err env k p) # diag_after env s k p) = 1
     \<longleftrightarrow> (\<forall>ev\<in>set (Write s p (write_err env k p) # diag_after env s k p). \<not> failed ev)"
  by (auto simp: diag_after_def split: option.splits)

lemma call_message_eq:
  "Sprintf lib (fst (call_format c)) (snd (call_format c)) = call_message lib c"
  by (cases c) (simp_all add: Sprintf_s)

lemma sublist_text_line: "sublist msg (text_line env l level msg)"
  unfolding text_line_def sublist_def by (metis append.assoc)

subsection \<open>Filtering and the writes of a call\<close>

text \<open>
  The testable property "otherwise it produces exactly one non-empty write" fails where
  something fails. In the JSON revision a record with a channel among its arguments
  does not serialize, and the sink, which accepts every write, receives two: the
  diagnostic and then a lone newline. In the text revision a sink that refuses the
  write receives a second one, the diagnostic about the first.
\<close>

theorem exactly_one_write_counterexample:
  "w example_logger = Some (Sink 0)
   \<and> \<not> minLevel example_logger > call_level (CallInfof ''queue %v'' [VChan])
   \<and> writes (fst (emit example_lib example_env example_logger (CallInfof ''queue %v'' [VChan])))
       = [Write (Sink 0)
            ''failed to marshal message json: unsupported type: chan int original message queue %v''
            None,
          Write (Sink 0) newline None]
   \<and> \<not> minLevel example_logger_text > call_level (CallInfo ''hello'')
   \<and> length (writes (fst (emit_text example_lib failing_env example_logger_text (CallInfo ''hello''))))
       = 2"
  by (simp add: example_logger_def example_logger_text_def example_env_def failing_env_def
        accepts_def refuses_def level_defs Infof_def Info_text_def writes_logMsg_text
        writes_logMsg_fail [OF _ _ Marshal_fails] marshal_diag_def diag_after_def)

text \<open>
  C1, as amended. For a call of one of the ten public methods at level L on a logger
  with minimum level M, in either revision: if L is strictly less severe than M the
  call does nothing at all, its trace is empty (no lock, no clock read, no write) and
  it returns. Otherwise, on a logger that has a sink, it calls \<^verbatim>\<open>Write\<close> at least
  once and every call carries a non-empty payload; there is exactly one call exactly
  when the record serializes (JSON revision) and no write returns an error, and
  otherwise each failure adds a diagnostic write, up to three calls in the JSON revision
  and two in the text revision.
\<close>

theorem emission_writes:
  fixes l :: Logger and lt :: "'a Logger_text_scheme"
  shows
  "(minLevel l > call_level c \<longrightarrow> emit lib env l c = ([], Returned))
   \<and> (minLevel lt > call_level c \<longrightarrow> emit_text lib env lt c = ([], Returned))
   \<and> (w l = Some s \<longrightarrow>
        (writes (fst (emit lib env l c)) = [] \<longleftrightarrow> minLevel l > call_level c))
   \<and> (w lt = Some s \<longrightarrow>
        (writes (fst (emit_text lib env lt c)) = [] \<longleftrightarrow> minLevel lt > call_level c))
   \<and> (w l = Some s \<and> \<not> minLevel l > call_level c \<longrightarrow>
        (let t = writes (fst (emit lib env l c)) in
           t \<noteq> [] \<and> length t \<le> 3 \<and> (\<forall>ev\<in>set t. payload ev \<noteq> [])
           \<and> (length t = 1 \<longleftrightarrow>
                (\<exists>bs. Marshal (fmt lib env l (call_level c) (fst (call_format c))
                                 (snd (call_format c))) = Inr bs)
                \<and> (\<forall>ev\<in>set t. \<not> failed ev))))
   \<and> (w lt = Some s \<and> \<not> minLevel lt > call_level c \<longrightarrow>
        (let t = writes (fst (emit_text lib env lt c)) in
           t \<noteq> [] \<and> length t \<le> 2 \<and> (\<forall>ev\<in>set t. payload ev \<noteq> [])
           \<and> (length t = 1 \<longleftrightarrow> (\<forall>ev\<in>set t. \<not> failed ev))))"
proof -
  let ?f = "fst (call_format c)" and ?a = "snd (call_format c)" and ?lv = "call_level c"
  have 1: "minLevel l > ?lv \<longrightarrow> emit lib env l c = ([], Returned)"
    by (simp add: emit_logMsg logMsg_filtered)
  have 2: "minLevel lt > ?lv \<longrightarrow> emit_text lib env lt c = ([], Returned)"
    by (simp add: emit_text_logMsg logMsg_text_filtered)
  have 3: "let t = writes (fst (emit lib env l c)) in
           t \<noteq> [] \<and> length t \<le> 3 \<and> (\<forall>ev\<in>set t. payload ev \<noteq> [])
           \<and> (length t = 1 \<longleftrightarrow>
                (\<exists>bs. Marshal (fmt lib env l ?lv ?f ?a) = Inr bs) \<and> (\<forall>ev\<in>set t. \<not> failed ev))"
    if h: "\<not> minLevel l > ?lv" "w l = Some s"
  proof (cases "Marshal (fmt lib env l ?lv ?f ?a)")
    case (Inr bs)
    show ?thesis
      using diag_after_props [of env s 0 "bs @ newline"] one_write_iff [of s "bs @ newline" env 0]
      by (simp add: emit_logMsg writes_logMsg_ok [OF h Inr] Inr newline_nonempty Let_def)
  next
    case (Inl err)
    show ?thesis
      using diag_after_props [of env s 1 newline]
      by (simp add: emit_logMsg writes_logMsg_fail [OF h Inl] Inl newline_nonempty
            marshal_diag_nonempty Let_def)
  qed
  have 4: "let t = writes (fst (emit_text lib env lt c)) in
           t \<noteq> [] \<and> length t \<le> 2 \<and> (\<forall>ev\<in>set t. payload ev \<noteq> [])
           \<and> (length t = 1 \<longleftrightarrow> (\<forall>ev\<in>set t. \<not> failed ev))"
    if h: "\<not> minLevel lt > ?lv" "w lt = Some s"
    using diag_after_props [of env s 0 "fmt_text lib env lt ?lv ?f ?a"]
      one_write_iff [of s "fmt_text lib env lt ?lv ?f ?a" env 0]
    by (simp add: emit_text_logMsg writes_logMsg_text [OF h] fmt_text_nonempty Let_def)
  have 5: "writes (fst (emit lib env l c)) = [] \<longleftrightarrow> minLevel l > ?lv" if "w l = Some s"
    using 1 3 [OF _ that] by (cases "minLevel l > ?lv") (simp_all add: writes_simps Let_def)
  have 6: "writes (fst (emit_text lib env lt c)) = [] \<longleftrightarrow> minLevel lt > ?lv" if "w lt = Some s"
    using 2 4 [OF _ that] by (cases "minLevel lt > ?lv") (simp_all add: writes_simps Let_def)
  show ?thesis using 1 2 3 4 5 6 by blast
qed

theorem emission_writes_witness:
  "w example_logger = Some (Sink 0) \<and> w example_logger_text = Some (Sink 0)
   \<and> minLevel example_logger > call_level (CallDebug ''unformatted'')
   \<and> emit example_lib example_env example_logger (CallDebug ''unformatted'') = ([], Returned)
   \<and> emit_text example_lib example_env example_logger_text (CallDebug ''unformatted'') = ([], Returned)
   \<and> \<not> minLevel example_logger > call_level (CallInfof ''%d'' [VInt 1])
   \<and> length (writes (fst (emit example_lib example_env example_logger (CallInfof ''%d'' [VInt 1])))) = 1
   \<and> length (writes (fst (emit_text example_lib example_env example_logger_text
                             (CallInfof ''%d'' [VInt 1])))) = 1"
  using emission_writes [where l = example_logger and c = "CallDebug ''unformatted''"
      and lib = example_lib and env = example_env and lt = example_logger_text and s = "Sink 0"]
    emission_writes [where l = example_logger and c = "CallInfof ''%d'' [VInt 1]"
      and lib = example_lib and env = example_env and lt = example_logger_text and s = "Sink 0"]
  by (simp add: example_logger_def example_logger_text_def example_env_def accepts_def level_defs
        Let_def Infof_def Infof_text_def writes_logMsg_text
        writes_logMsg_ok [OF _ _ Marshal_object] diag_after_def)

subsection \<open>FATAL\<close>

text \<open>
  A logger built without a writer has the nil interface as its sink. On it a call of
  \<^verbatim>\<open>Fatal\<close> passes the filter, takes the lock and builds the record, and then
  panics in \<^verbatim>\<open>l.w.Write\<close>: nothing is written and \<^verbatim>\<open>os.Exit(1)\<close> is never
  reached, in either revision.
\<close>

theorem fatal_without_sink_counterexample:
  "\<not> minLevel (New example_lib []) > call_level (CallFatal ''boom'')
   \<and> emit example_lib example_env (New example_lib []) (CallFatal ''boom'')
       = ([Lock, ReadClock, Unlock], Panicked)
   \<and> emit_text example_lib example_env \<lparr>w = None, minLevel = DEBUG, name = []\<rparr> (CallFatal ''boom'')
       = ([Lock, ReadClock, Unlock], Panicked)"
  by (simp add: New_def zero_Logger_def Fatal_def Fatal_text_def logMsg_def logMsg_text_def
        level_defs)

text \<open>
  C2, as amended. On a logger that has a sink, in either revision: a call that passes
  the filter ends in \<^verbatim>\<open>os.Exit(1)\<close> when its level is FATAL and returns otherwise;
  the exit of a FATAL call comes after the write attempts, the last event before it
  being a call of \<^verbatim>\<open>Write\<close>, whatever errors the sink returns (\<open>env\<close> is
  arbitrary). On any logger, a call at another level never ends in \<^verbatim>\<open>os.Exit\<close>. On
  a logger without a sink, a call that passes the filter, at any level, takes the
  lock, builds the record and panics at the write, without a write and without
  \<^verbatim>\<open>os.Exit\<close>.
\<close>

theorem fatal_exits_after_write:
  fixes l :: Logger and lt :: "'a Logger_text_scheme"
  shows
  "(w l = Some s \<and> \<not> minLevel l > call_level c \<longrightarrow>
      snd (emit lib env l c) = (if call_level c = FATAL then Exited 1 else Returned)
      \<and> (call_level c = FATAL \<longrightarrow>
            fst (emit lib env l c) \<noteq> [] \<and> is_write (last (fst (emit lib env l c)))))
   \<and> (w lt = Some s \<and> \<not> minLevel lt > call_level c \<longrightarrow>
      snd (emit_text lib env lt c) = (if call_level c = FATAL then Exited 1 else Returned)
      \<and> (call_level c = FATAL \<longrightarrow>
            fst (emit_text lib env lt c) \<noteq> [] \<and> is_write (last (fst (emit_text lib env lt c)))))
   \<and> (call_level c \<noteq> FATAL \<longrightarrow>
        snd (emit lib env l c) \<noteq> Exited code \<and> snd (emit_text lib env lt c) \<noteq> Exited code)
   \<and> (w l = None \<and> \<not> minLevel l > call_level c \<longrightarrow>
        emit lib env l c = ([Lock, ReadClock, Unlock], Panicked))
   \<and> (w lt = None \<and> \<not> minLevel lt > call_level c \<longrightarrow>
        emit_text lib env lt c = ([Lock, ReadClock, Unlock], Panicked))"
proof -
  have sink: "w l = Some s \<and> \<not> minLevel l > call_level c \<longrightarrow>
      snd (emit lib env l c) = (if call_level c = FATAL then Exited 1 else Returned)
      \<and> (call_level c = FATAL \<longrightarrow>
            fst (emit lib env l c) \<noteq> [] \<and> is_write (last (fst (emit lib env l c))))"
    using fst_logMsg_fatal [of l s lib env] by (auto simp: emit_logMsg snd_logMsg)
  have sink_text: "w lt = Some s \<and> \<not> minLevel lt > call_level c \<longrightarrow>
      snd (emit_text lib env lt c) = (if call_level c = FATAL then Exited 1 else Returned)
      \<and> (call_level c = FATAL \<longrightarrow>
            fst (emit_text lib env lt c) \<noteq> [] \<and> is_write (last (fst (emit_text lib env lt c))))"
    using fst_logMsg_text_fatal [of lt s lib env] by (auto simp: emit_text_logMsg snd_logMsg_text)
  have other: "call_level c \<noteq> FATAL \<longrightarrow>
        snd (emit lib env l c) \<noteq> Exited code \<and> snd (emit_text lib env lt c) \<noteq> Exited code"
    by (simp add: emit_logMsg emit_text_logMsg snd_logMsg_not_exit snd_logMsg_text_not_exit)
  have nil: "w l = None \<and> \<not> minLevel l > call_level c \<longrightarrow>
        emit lib env l c = ([Lock, ReadClock, Unlock], Panicked)"
    by (simp add: emit_logMsg logMsg_nil)
  have nil_text: "w lt = None \<and> \<not> minLevel lt > call_level c \<longrightarrow>
        emit_text lib env lt c = ([Lock, ReadClock, Unlock], Panicked)"
    by (simp add: emit_text_logMsg logMsg_text_nil)
  show ?thesis using sink sink_text other nil nil_text by blast
qed

theorem fatal_exits_after_write_witness:
  "w example_logger = Some (Sink 0) \<and> \<not> minLevel example_logger > call_level (CallFatal ''boom'')
   \<and> w example_logger_text = Some (Sink 0)
   \<and> \<not> minLevel example_logger_text > call_level (CallFatal ''boom'')
   \<and> call_level (CallFatal ''boom'') = FATAL
   \<and> snd (emit example_lib failing_env example_logger (CallFatal ''boom'')) = Exited 1
   \<and> is_write (last (fst (emit example_lib failing_env example_logger (CallFatal ''boom''))))
   \<and> snd (emit_text example_lib failing_env example_logger_text (CallFatal ''boom'')) = Exited 1
   \<and> call_level (CallError ''boom'') \<noteq> FATAL
   \<and> snd (emit example_lib failing_env example_logger (CallError ''boom'')) = Returned
   \<and> w (example_logger\<lparr>w := None\<rparr>) = None
   \<and> \<not> minLevel (example_logger\<lparr>w := None\<rparr>) > call_level (CallError ''boom'')
   \<and> emit example_lib failing_env (example_logger\<lparr>w := None\<rparr>) (CallError ''boom'')
       = ([Lock, ReadClock, Unlock], Panicked)
   \<and> emit_text example_lib failing_env (example_logger_text\<lparr>w := None\<rparr>) (CallError ''boom'')
       = ([Lock, ReadClock, Unlock], Panicked)"
  using fatal_exits_after_write [where l = example_logger and s = "Sink 0"
      and c = "CallFatal ''boom''" and lib = example_lib and env = failing_env
      and lt = example_logger_text and code = 0]
    fatal_exits_after_write [where l = example_logger and s = "Sink 0"
      and c = "CallError ''boom''" and lib = example_lib and env = failing_env
      and lt = example_logger_text and code = 0]
    fatal_exits_after_write [where l = "example_logger\<lparr>w := None\<rparr>" and s = "Sink 0"
      and c = "CallError ''boom''" and lib = example_lib and env = failing_env
      and lt = "example_logger_text\<lparr>w := None\<rparr>" and code = 0]
  by (simp add: example_logger_def example_logger_text_def level_defs)

text \<open>
  The list of options \<^verbatim>\<open>WithLevel("fatal")\<close> has no writer: the logger it builds
  does not filter \<^verbatim>\<open>Fatalf\<close>, which takes the lock and then panics at the write on
  the nil interface, so there is no call of \<^verbatim>\<open>Write\<close> and no \<^verbatim>\<open>os.Exit\<close>.
\<close>

theorem New_without_writer_counterexample:
  "call_level (CallFatalf ''boom'' []) = FATAL
   \<and> emit example_lib example_env (New example_lib [WithLevel ''fatal'']) (CallFatalf ''boom'' [])
       = ([Lock, ReadClock, Unlock], Panicked)
   \<and> writes (fst (emit example_lib example_env (New example_lib [WithLevel ''fatal''])
                     (CallFatalf ''boom'' []))) = []"
  by (simp add: New_def zero_Logger_def levelFromString_def ToLower_def is_ascii_def
        lower_byte_def is_upper_def level_defs Fatalf_def logMsg_def writes_def)

text \<open>
  C10, as amended. The minimum level of a logger built by \<open>New\<close> from any list of
  options lies between DEBUG and FATAL, so a call of \<^verbatim>\<open>Fatal\<close> or \<^verbatim>\<open>Fatalf\<close> on it
  is never filtered: it takes the lock and builds the record, and it does not return.
  When the list sets a sink, the call goes on to call \<^verbatim>\<open>Write\<close> and ends in
  \<^verbatim>\<open>os.Exit(1)\<close>; when it sets none, the call panics at the write on the nil
  interface, with no call of \<^verbatim>\<open>Write\<close> and no \<^verbatim>\<open>os.Exit\<close>.
\<close>

theorem New_never_filters_fatal:
  "DEBUG \<le> minLevel (New lib opts) \<and> minLevel (New lib opts) \<le> FATAL
   \<and> (call_level c = FATAL \<longrightarrow>
        take 2 (fst (emit lib env (New lib opts) c)) = [Lock, ReadClock]
        \<and> snd (emit lib env (New lib opts) c) \<noteq> Returned
        \<and> (\<forall>s. w (New lib opts) = Some s \<longrightarrow>
              writes (fst (emit lib env (New lib opts) c)) \<noteq> []
              \<and> snd (emit lib env (New lib opts) c) = Exited 1)
        \<and> (w (New lib opts) = None \<longrightarrow>
              emit lib env (New lib opts) c = ([Lock, ReadClock, Unlock], Panicked)))"
proof -
  let ?l = "New lib opts"
  have r: "DEBUG \<le> minLevel ?l \<and> minLevel ?l \<le> FATAL" by (rule New_minLevel_range)
  then have nf: "\<not> minLevel ?l > FATAL" by simp
  have "take 2 (fst (logMsg lib env ?l FATAL f a)) = [Lock, ReadClock]
        \<and> snd (logMsg lib env ?l FATAL f a) \<noteq> Returned
        \<and> (\<forall>s. w ?l = Some s \<longrightarrow>
              writes (fst (logMsg lib env ?l FATAL f a)) \<noteq> []
              \<and> snd (logMsg lib env ?l FATAL f a) = Exited 1)
        \<and> (w ?l = None \<longrightarrow>
              logMsg lib env ?l FATAL f a = ([Lock, ReadClock, Unlock], Panicked))" for f a
  proof (cases "w ?l")
    case None
    then show ?thesis by (simp add: logMsg_nil [OF nf])
  next
    case (Some s)
    show ?thesis
      by (cases "Marshal (fmt lib env ?l FATAL f a)")
         (simp_all add: Some logMsg_sink_ok [OF nf Some] logMsg_sink_fail [OF nf Some]
            finish_def Write_entry_eq writes_append writes_simps)
  qed
  then show ?thesis using r by (simp add: emit_logMsg)
qed

theorem New_never_filters_fatal_witness:
  "call_level (CallFatalf ''boom'' []) = FATAL
   \<and> minLevel (New example_lib [WithLevel ''fatal'', WithWriter (Some (Sink 0))]) = FATAL
   \<and> w (New example_lib [WithLevel ''fatal'', WithWriter (Some (Sink 0))]) = Some (Sink 0)
   \<and> snd (emit example_lib example_env
             (New example_lib [WithLevel ''fatal'', WithWriter (Some (Sink 0))])
             (CallFatalf ''boom'' [])) = Exited 1
   \<and> w (New example_lib [WithName ''unit_test'']) = None
   \<and> emit example_lib example_env (New example_lib [WithName ''unit_test''])
         (CallFatalf ''boom'' []) = ([Lock, ReadClock, Unlock], Panicked)"
  using New_never_filters_fatal [of example_lib "[WithLevel ''fatal'', WithWriter (Some (Sink 0))]"
      "CallFatalf ''boom'' []" example_env]
    New_never_filters_fatal [of example_lib "[WithName ''unit_test'']"
      "CallFatalf ''boom'' []" example_env]
  by (simp add: New_def zero_Logger_def levelFromString_def ToLower_def is_ascii_def
        lower_byte_def is_upper_def level_defs)

subsection \<open>The structured rendering\<close>

text \<open>
  The members name and msg carry the tag \<^verbatim>\<open>omitempty\<close> as caller, fields and
  stacktrace do: a logger without a name that emits the empty template writes an
  object that has the members level and timestamp only.
\<close>

theorem optional_members_counterexample:
  "emit example_lib example_env nameless_logger (CallInfof [] [])
     = ([Lock, ReadClock,
         Write (Sink 0)
           (render_object [(''level'', JString ''INFO''),
                           (''timestamp'', JString ''2006-01-02 15:04:05'')] @ newline) None,
         Unlock], Returned)"
  by (simp add: Infof_def nameless_logger_def example_env_def accepts_def level_defs
        logMsg_sink_ok [OF _ _ Marshal_object] object_of_def omitempty_def fmt_eq
        level_string_def Write_entry_eq writes_simps finish_def)

text \<open>
  C5, as amended. In the structured rendering, a call that passes the filter on a
  logger with a sink, and whose arguments serialize, writes first one line: the bytes
  of a single JSON object, which hold no newline, followed by a newline. The members
  of the object are, in this order, among name, level, msg, fields, stacktrace and
  timestamp (caller is never written): level and timestamp are always present; name,
  msg, fields and stacktrace are left out when empty. fields holds the arguments of
  the call in their order, each as its own JSON value (a number for an int, a string
  for a string, and so on), not interpolated into msg.
\<close>

theorem structured_line:
  fixes lib :: stdlib and env :: env and l :: Logger
  assumes "w l = Some s" and "\<not> minLevel l > call_level c"
    and "fields_json (snd (call_format c)) = Inr fs"
  defines "obj \<equiv> object_of (name l) (level_string (call_level c)) (fst (call_format c)) fs
                   (Stacktrace (fmt lib env l (call_level c) (fst (call_format c)) (snd (call_format c))))
                   (now env)"
  shows "hd (writes (fst (emit lib env l c)))
           = Write s (render_object obj @ newline) (write_err env 0 (render_object obj @ newline))
         \<and> CHR 0x0A \<notin> set (render_object obj)
         \<and> subseq (map fst obj) [''name'', ''level'', ''msg'', ''fields'', ''stacktrace'', ''timestamp'']
         \<and> map_of obj ''level'' = Some (JString (level_string (call_level c)))
         \<and> map_of obj ''timestamp'' = Some (JString (now env))
         \<and> map_of obj ''name'' = (if name l = [] then None else Some (JString (name l)))
         \<and> map_of obj ''msg''
              = (if fst (call_format c) = [] then None else Some (JString (fst (call_format c))))
         \<and> map_of obj ''fields''
              = (if snd (call_format c) = [] then None else Some (JArray fs))
         \<and> list_all2 (\<lambda>a j. json_of a = Inr j) (snd (call_format c)) fs"
proof -
  have m: "Marshal (fmt lib env l (call_level c) (fst (call_format c)) (snd (call_format c)))
             = Inr (render_object obj)"
    unfolding obj_def by (rule Marshal_object [OF assms(3)])
  have 1: "hd (writes (fst (emit lib env l c)))
           = Write s (render_object obj @ newline) (write_err env 0 (render_object obj @ newline))"
    by (simp add: emit_logMsg writes_logMsg_ok [OF assms(2,1) m])
  have 2: "CHR 0x0A \<notin> set (render_object obj)" by (rule render_object_no_nl)
  have fs: "list_all2 (\<lambda>a j. json_of a = Inr j) (snd (call_format c)) fs"
    using assms(3) by (simp add: fields_json_all)
  then have e: "fs = [] \<longleftrightarrow> snd (call_format c) = []" by auto
  have 3: "subseq (map fst obj) [''name'', ''level'', ''msg'', ''fields'', ''stacktrace'', ''timestamp'']"
    by (simp add: obj_def object_of_def omitempty_def)
  have 4: "map_of obj ''level'' = Some (JString (level_string (call_level c)))"
    "map_of obj ''timestamp'' = Some (JString (now env))"
    "map_of obj ''name'' = (if name l = [] then None else Some (JString (name l)))"
    "map_of obj ''msg''
       = (if fst (call_format c) = [] then None else Some (JString (fst (call_format c))))"
    "map_of obj ''fields'' = (if snd (call_format c) = [] then None else Some (JArray fs))"
    by (simp_all add: obj_def object_of_def omitempty_def e)
  show ?thesis using 1 2 3 4 fs by simp
qed

theorem structured_line_witness:
  "w example_logger = Some (Sink 0) \<and> \<not> minLevel example_logger > call_level (CallInfof ''%d'' [VInt 1])
   \<and> fields_json (snd (call_format (CallInfof ''%d'' [VInt 1]))) = Inr [JNumber 1]
   \<and> hd (writes (fst (emit example_lib example_env example_logger (CallInfof ''%d'' [VInt 1]))))
       = Write (Sink 0)
           (render_object [(''name'', JString ''unit_test''), (''level'', JString ''INFO''),
                           (''msg'', JString ''%d''), (''fields'', JArray [JNumber 1]),
                           (''timestamp'', JString ''2006-01-02 15:04:05'')] @ newline) None"
  using structured_line [of example_logger "Sink 0" "CallInfof ''%d'' [VInt 1]" "[JNumber 1]"
      example_lib example_env]
  by (simp add: example_logger_def example_env_def accepts_def level_defs object_of_def
        omitempty_def level_string_def fmt_eq)

text \<open>
  C9. In the structured rendering a plain method hands its message to \<^verbatim>\<open>logMsg\<close>
  as the one argument of the format \<^verbatim>\<open>"%s"\<close>: the record has the message
  \<^verbatim>\<open>"%s"\<close> and the fields \<open>[m]\<close>, and the object written (on a logger with a sink,
  for a call that passes the filter) has \<^verbatim>\<open>"msg":"%s"\<close> and the caller's text as
  the one element of \<^verbatim>\<open>"fields"\<close>.
\<close>

theorem plain_message_in_fields:
  fixes lib :: stdlib and env :: env and l :: Logger
  assumes "w l = Some s" and "\<not> minLevel l > call_level c"
    and "c \<in> {CallDebug m, CallInfo m, CallWarn m, CallError m, CallFatal m}"
  defines "en \<equiv> fmt lib env l (call_level c) (fst (call_format c)) (snd (call_format c))"
  defines "obj \<equiv> object_of (name l) (level_string (call_level c)) ''%s'' [JString m]
                   (Stacktrace en) (now env)"
  shows "Message en = ''%s'' \<and> Fields en = [VStr m]
         \<and> entry_json en = Inr obj
         \<and> map_of obj ''msg'' = Some (JString ''%s'')
         \<and> map_of obj ''fields'' = Some (JArray [JString m])
         \<and> hd (writes (fst (emit lib env l c)))
             = Write s (render_object obj @ newline) (write_err env 0 (render_object obj @ newline))"
proof -
  have cf: "call_format c = (''%s'', [VStr m])" using assms(3) by auto
  have f: "fields_json (snd (call_format c)) = Inr [JString m]" by (simp add: cf)
  have 1: "Message en = ''%s''" "Fields en = [VStr m]" by (simp_all add: en_def cf fmt_eq)
  have 2: "entry_json en = Inr obj"
    using entry_json_object [OF f, of lib env l "call_level c" "fst (call_format c)"]
    by (simp add: en_def obj_def cf)
  have 3: "map_of obj ''msg'' = Some (JString ''%s'')"
    "map_of obj ''fields'' = Some (JArray [JString m])"
    by (simp_all add: obj_def object_of_def omitempty_def)
  have m: "Marshal en = Inr (render_object obj)" by (simp add: Marshal_def 2)
  have 4: "hd (writes (fst (emit lib env l c)))
             = Write s (render_object obj @ newline) (write_err env 0 (render_object obj @ newline))"
    using writes_logMsg_ok [OF assms(2,1) m [unfolded en_def]] by (simp add: emit_logMsg)
  show ?thesis using 1 2 3 4 by simp
qed

theorem plain_message_in_fields_witness:
  "w example_logger = Some (Sink 0) \<and> \<not> minLevel example_logger > call_level (CallInfo ''hello'')
   \<and> hd (writes (fst (emit example_lib example_env example_logger (CallInfo ''hello''))))
       = Write (Sink 0)
           (render_object [(''name'', JString ''unit_test''), (''level'', JString ''INFO''),
                           (''msg'', JString ''%s''), (''fields'', JArray [JString ''hello'']),
                           (''timestamp'', JString ''2006-01-02 15:04:05'')] @ newline) None"
  using plain_message_in_fields [of example_logger "Sink 0" "CallInfo ''hello''" "''hello''"
      example_lib example_env]
  by (simp add: example_logger_def example_env_def accepts_def level_defs object_of_def
        omitempty_def level_string_def fmt_eq)

text \<open>
  C4. In the structured rendering, on a logger with a sink (without one the call
  panics, as for C2), when the record of a call that passes the filter does not
  serialize, the calls of \<^verbatim>\<open>Write\<close> are: the diagnostic, which names the failure and
  the original template; a lone newline, which is all that is left of the record's
  line since \<^verbatim>\<open>json.Marshal\<close> returns no bytes with an error; and, only if the write
  of the newline returns an error, the diagnostic about that. The record is not encoded
  again, and the call ends as every call does: it returns, or exits when the level is
  FATAL. The error is always that of the unsupported type.
\<close>

theorem marshal_failure_diagnostic:
  fixes lib :: stdlib and env :: env and l :: Logger
  assumes "w l = Some s" and "\<not> minLevel l > call_level c"
    and "Marshal (fmt lib env l (call_level c) (fst (call_format c)) (snd (call_format c))) = Inl err"
  shows "writes (fst (emit lib env l c))
           = Write s (marshal_diag err (fst (call_format c)))
                 (write_err env 0 (marshal_diag err (fst (call_format c))))
               # Write s newline (write_err env 1 newline)
               # diag_after env s 1 newline
         \<and> snd (emit lib env l c) = (if call_level c = FATAL then Exited 1 else Returned)
         \<and> marshal_diag err (fst (call_format c))
             = ''failed to marshal message json: unsupported type: chan int original message ''
                 @ fst (call_format c)"
proof -
  have "fields_json (snd (call_format c)) = Inl err"
    using assms(3)
    by (cases "fields_json (snd (call_format c))") (simp_all add: Marshal_object Marshal_fails)
  then have "err = UnsupportedTypeError ''chan int''" by (rule fields_json_error)
  then show ?thesis
    using writes_logMsg_fail [OF assms(2,1,3)] snd_logMsg [OF assms(2,1)]
    by (simp add: emit_logMsg marshal_diag_def)
qed

theorem marshal_failure_diagnostic_witness:
  "w example_logger = Some (Sink 0)
   \<and> \<not> minLevel example_logger > call_level (CallInfof ''queue %v'' [VChan])
   \<and> Marshal (fmt example_lib example_env example_logger INFO ''queue %v'' [VChan])
       = Inl (UnsupportedTypeError ''chan int'')
   \<and> emit example_lib example_env example_logger (CallInfof ''queue %v'' [VChan])
       = ([Lock, ReadClock,
           Write (Sink 0)
             ''failed to marshal message json: unsupported type: chan int original message queue %v''
             None,
           Write (Sink 0) newline None, Unlock], Returned)"
  using marshal_failure_diagnostic [of example_logger "Sink 0" "CallInfof ''queue %v'' [VChan]"
      example_lib example_env "UnsupportedTypeError ''chan int''"]
  by (simp add: example_logger_def example_env_def accepts_def level_defs Marshal_fails
        Infof_def logMsg_sink_fail marshal_diag_def Write_entry_eq writes_simps finish_def)

subsection \<open>The plain-text rendering\<close>

text \<open>
  C7. In the plain-text rendering the line built for a call is the specified line
  around the message of the call, where the message of a plain method is the string it
  was given, byte for byte, whatever verbs that string holds (so the line contains the
  string verbatim), and the message of an f-suffixed method is what
  \<^verbatim>\<open>fmt.Sprintf\<close> makes of the template and the arguments. On a logger with a
  sink, for a call that passes the filter, this line is the payload of the first write.
\<close>

theorem text_message_verbatim:
  "fmt_text lib env lt (call_level c) (fst (call_format c)) (snd (call_format c))
     = text_line env lt (call_level c) (call_message lib c)
   \<and> sublist (call_message lib c) (text_line env lt (call_level c) (call_message lib c))
   \<and> (w lt = Some s \<and> \<not> minLevel lt > call_level c \<longrightarrow>
        hd (writes (fst (emit_text lib env lt c)))
          = Write s (text_line env lt (call_level c) (call_message lib c))
              (write_err env 0 (text_line env lt (call_level c) (call_message lib c))))"
proof -
  let ?line = "text_line env lt (call_level c) (call_message lib c)"
  have line: "fmt_text lib env lt (call_level c) (fst (call_format c)) (snd (call_format c)) = ?line"
    by (simp only: fmt_text_eq call_message_eq)
  have verbatim: "sublist (call_message lib c) ?line"
    by (rule sublist_text_line)
  have written: "hd (writes (fst (emit_text lib env lt c))) = Write s ?line (write_err env 0 ?line)"
    if "w lt = Some s" and "\<not> minLevel lt > call_level c"
    by (simp add: emit_text_logMsg writes_logMsg_text [OF that(2,1)] line)
  show ?thesis using line verbatim written by blast
qed

theorem text_message_verbatim_witness:
  "w example_logger_text = Some (Sink 0)
   \<and> \<not> minLevel example_logger_text > call_level (CallInfo ''load 100%d'')
   \<and> call_message example_lib (CallInfo ''load 100%d'') = ''load 100%d''
   \<and> call_message example_lib (CallInfof ''%d'' [VInt 1]) = ''1''
   \<and> hd (writes (fst (emit_text example_lib example_env example_logger_text (CallInfo ''load 100%d''))))
       = Write (Sink 0)
           (''2006-01-02 15:04:05 ['' @ colorGreen @ ''INFO'' @ colorReset @ ''] unit_test load 100%d''
              @ newline) None"
  using text_message_verbatim [of example_lib example_env example_logger_text
      "CallInfo ''load 100%d''" "Sink 0"]
  by (simp add: example_logger_text_def example_env_def accepts_def text_line_def level_defs
        colorFromLevel_def level_string_def Sprintf_def printArg_def extra_def dec_int_def
        dec_nat.simps char_of_def bit_0)

end
